theory Spec2Isabelle
  imports Complex_Main "HOL-Library.Word" "HOL-Library.Multiset"
begin

section \<open>Numbers of the program\<close>

text \<open>
  \<^verbatim>\<open>tradingutility.cpp\<close> computes with three kinds of numbers.

  \<^item> \<^verbatim>\<open>long\<close> is a 64-bit two's-complement integer (the file is written
    against glibc, whose 64-bit targets are LP64): a \<open>64 word\<close>, read signed
    by \<open>sint\<close>. The one integer operation of the file, the product
    \<^verbatim>\<open>getQuantity() * getPrice()\<close>, is the word product, which wraps around
    (what the usual targets do where the C++ standard leaves overflow undefined).
  \<^item> \<^verbatim>\<open>double\<close> is IEEE 754 binary64 in the default rounding mode: a value
    is a real number with a 53-bit significand, minus zero, an infinity or NaN,
    and every conversion and operation gives the representable value nearest to
    the exact result, ties to the even significand (\<open>round64\<close>); beyond the
    largest number it gives an infinity, below the smallest a zero of the
    same sign.
  \<^item> \<^verbatim>\<open>time_t\<close> is a count of seconds, an \<open>int\<close>: the file only compares such
    values and subtracts 900 from the current time.
\<close>

type_synonym long = "64 word"

type_synonym time_t = int

datatype double = Num real | NegZero | PInf | NInf | NaN

fun is_nan :: "double \<Rightarrow> bool" where
  "is_nan NaN = True"
| "is_nan _ = False"

fun is_inf :: "double \<Rightarrow> bool" where
  "is_inf PInf = True"
| "is_inf NInf = True"
| "is_inf _ = False"

fun negative :: "double \<Rightarrow> bool" where
  \<comment> \<open>the sign bit\<close>
  "negative (Num x) = (x < 0)"
| "negative NegZero = True"
| "negative NInf = True"
| "negative _ = False"

fun value_of :: "double \<Rightarrow> real" where
  \<comment> \<open>the number a finite value stands for\<close>
  "value_of (Num x) = x"
| "value_of _ = 0"

definition is_zero :: "double \<Rightarrow> bool" where
  "is_zero a \<longleftrightarrow> a = Num 0 \<or> a = NegZero"

definition signed_zero :: "bool \<Rightarrow> double" where
  "signed_zero s = (if s then NegZero else Num 0)"

definition infinity :: "bool \<Rightarrow> double" where
  "infinity s = (if s then NInf else PInf)"

text \<open>
  Rounding to nearest, ties to even. \<open>ulp_exp x\<close> is the exponent of the last
  bit of the significand at the magnitude of \<open>x\<close>, which stops falling at the
  subnormal numbers; \<open>nearest x\<close> is the multiple of that unit nearest to \<open>x\<close>.
  The largest number is \<open>2 ^ 1024 - 2 ^ 971\<close>; from half a unit above it on,
  the result is an infinity.
\<close>

definition ulp_exp :: "real \<Rightarrow> int" where
  "ulp_exp x = max \<lfloor>log 2 \<bar>x\<bar>\<rfloor> (- 1022) - 52"

definition round_even :: "real \<Rightarrow> int" where
  "round_even t =
     (let f = \<lfloor>t\<rfloor>; d = t - of_int f
      in if d < 1 / 2 then f else if 1 / 2 < d then f + 1 else if even f then f else f + 1)"

definition nearest :: "real \<Rightarrow> real" where
  "nearest x = of_int (round_even (x / 2 powi ulp_exp x)) * 2 powi ulp_exp x"

definition round64 :: "real \<Rightarrow> double" where
  "round64 x =
     (if x = 0 then Num 0
      else if 2 ^ 1024 - 2 ^ 970 \<le> \<bar>x\<bar> then infinity (x < 0)
      else if nearest x = 0 then signed_zero (x < 0)
      else Num (nearest x))"

definition long_val :: "long \<Rightarrow> real" where
  "long_val n = real_of_int (sint n)"

definition of_long :: "long \<Rightarrow> double" where
  \<comment> \<open>the implicit conversion \<^verbatim>\<open>long\<close> to \<^verbatim>\<open>double\<close>\<close>
  "of_long n = round64 (long_val n)"

definition of_size :: "nat \<Rightarrow> double" where
  \<comment> \<open>the cast \<^verbatim>\<open>(double) trades.size()\<close>\<close>
  "of_size n = round64 (real n)"

definition dadd :: "double \<Rightarrow> double \<Rightarrow> double" where
  "dadd a b =
     (if is_nan a \<or> is_nan b then NaN
      else if is_inf a \<and> is_inf b then (if negative a = negative b then a else NaN)
      else if is_inf a then a
      else if is_inf b then b
      else if value_of a + value_of b = 0 then signed_zero (negative a \<and> negative b)
      else round64 (value_of a + value_of b))"

definition dmul :: "double \<Rightarrow> double \<Rightarrow> double" where
  "dmul a b =
     (if is_nan a \<or> is_nan b then NaN
      else if (is_inf a \<and> is_zero b) \<or> (is_zero a \<and> is_inf b) then NaN
      else if is_inf a \<or> is_inf b then infinity (negative a \<noteq> negative b)
      else if value_of a * value_of b = 0 then signed_zero (negative a \<noteq> negative b)
      else round64 (value_of a * value_of b))"

definition ddiv :: "double \<Rightarrow> double \<Rightarrow> double" where
  "ddiv a b =
     (if is_nan a \<or> is_nan b then NaN
      else if is_inf a \<and> is_inf b then NaN
      else if is_zero a \<and> is_zero b then NaN
      else if is_inf a then infinity (negative a \<noteq> negative b)
      else if is_inf b then signed_zero (negative a \<noteq> negative b)
      else if is_zero b then infinity (negative a \<noteq> negative b)
      else if is_zero a then signed_zero (negative a \<noteq> negative b)
      else round64 (value_of a / value_of b))"

definition dne :: "double \<Rightarrow> double \<Rightarrow> bool" where
  \<comment> \<open>the operator \<^verbatim>\<open>!=\<close>: NaN differs from everything, the two zeros are equal\<close>
  "dne a b =
     (if is_nan a \<or> is_nan b then True
      else if is_inf a \<or> is_inf b then a \<noteq> b
      else value_of a \<noteq> value_of b)"

section \<open>Pricing formulas\<close>

text \<open>
  The two exceptions of the file: \<^verbatim>\<open>invalid_argument\<close> with its message, and the
  object \<^verbatim>\<open>NoTradesFound\<close> of class \<^verbatim>\<open>noTradesFound\<close>.
\<close>

datatype error = invalid_argument string | NoTradesFound

definition COMMON :: string where
  "COMMON = ''Common''"

definition PREFERRED :: string where
  "PREFERRED = ''Preferred''"

definition calculateDividendYield ::
  "long \<Rightarrow> string \<Rightarrow> double \<Rightarrow> double \<Rightarrow> long \<Rightarrow> error + double" where
  "calculateDividendYield price tradeType lastDividend fixedDividend parValue =
     (if tradeType = COMMON then Inr (ddiv lastDividend (of_long price))
      else if tradeType = PREFERRED
        then Inr (ddiv (dmul fixedDividend (of_long parValue)) (of_long price))
      else Inl (invalid_argument ''Invalid Trade Type''))"

definition calculatePERatio :: "long \<Rightarrow> double \<Rightarrow> double" where
  \<comment> \<open>no \<^verbatim>\<open>throw\<close> in the source: the result is a plain \<^verbatim>\<open>double\<close>\<close>
  "calculatePERatio price dividend = ddiv (of_long price) dividend"

section \<open>The C library\<close>

text \<open>
  \<^verbatim>\<open>recordTrade\<close> calls \<^verbatim>\<open>memset\<close>, \<^verbatim>\<open>strptime\<close> and \<^verbatim>\<open>mktime\<close>,
  \<^verbatim>\<open>calculateGeometricMean\<close> calls \<^verbatim>\<open>pow\<close>, and \<^verbatim>\<open>getVolumeWeightedStockPrice\<close>
  calls \<^verbatim>\<open>time\<close>. They belong to the C library and to the environment (time
  zone, clock), not to the repository, so the model takes them as parameters:
  a \<open>libc\<close> for the first four, the current time for the last.
  \<open>strptime lib s tm\<close> is the \<^verbatim>\<open>struct tm\<close> that
  \<^verbatim>\<open>strptime(s, "%Y-%m-%d %H:%M:%S", &tm)\<close> leaves behind; its return value is
  discarded by the source. \<open>pow lib\<close> is the function of \<^verbatim>\<open><cmath>\<close>, whose
  accuracy the C standard leaves to the library.
\<close>

record tm =
  tm_sec :: int
  tm_min :: int
  tm_hour :: int
  tm_mday :: int
  tm_mon :: int
  tm_year :: int
  tm_wday :: int
  tm_yday :: int
  tm_isdst :: int

definition memset_tm :: tm where
  \<comment> \<open>\<^verbatim>\<open>memset(&tm, 0, sizeof(struct tm))\<close>\<close>
  "memset_tm = \<lparr>tm_sec = 0, tm_min = 0, tm_hour = 0, tm_mday = 0, tm_mon = 0,
     tm_year = 0, tm_wday = 0, tm_yday = 0, tm_isdst = 0\<rparr>"

record libc =
  strptime :: "string \<Rightarrow> tm \<Rightarrow> tm"
  mktime :: "tm \<Rightarrow> time_t"
  pow :: "double \<Rightarrow> double \<Rightarrow> double"

definition c_str :: "string \<Rightarrow> string" where
  \<comment> \<open>the C string a \<^verbatim>\<open>std::string\<close> hands out ends at its first NUL\<close>
  "c_str s = takeWhile (\<lambda>c. c \<noteq> CHR 0x00) s"

subsection \<open>A reference library for concrete runs\<close>

text \<open>
  For evaluating the program on concrete calls: \<^verbatim>\<open>strptime\<close> as glibc reads the
  format \<^verbatim>\<open>%Y-%m-%d %H:%M:%S\<close> (each number by its \<^verbatim>\<open>get_number\<close>; a field
  already read stays in \<^verbatim>\<open>tm\<close> when a later one fails; \<^verbatim>\<open>tm_wday\<close> and
  \<^verbatim>\<open>tm_yday\<close>, which \<^verbatim>\<open>mktime\<close> does not read, are left alone), \<^verbatim>\<open>mktime\<close>
  in the time zone UTC, and a \<^verbatim>\<open>pow\<close> with the special cases of C's Annex F
  that rounds the exact power correctly elsewhere. The general theorems below
  hold for every library.
\<close>

definition is_space :: "char \<Rightarrow> bool" where
  "is_space c \<longleftrightarrow> c \<in> set [CHR '' '', CHR 0x09, CHR 0x0A, CHR 0x0B, CHR 0x0C, CHR 0x0D]"

definition is_digit :: "char \<Rightarrow> bool" where
  "is_digit c \<longleftrightarrow> 48 \<le> (of_char c :: nat) \<and> (of_char c :: nat) \<le> 57"

definition digit_val :: "char \<Rightarrow> nat" where
  "digit_val c = of_char c - 48"

fun number_loop :: "nat \<Rightarrow> nat \<Rightarrow> nat \<Rightarrow> string \<Rightarrow> nat \<times> string" where
  "number_loop n to val [] = (val, [])"
| "number_loop n to val (c # rp) =
     (let val' = val * 10 + digit_val c
      in if 1 < n \<and> val' * 10 \<le> to \<and> rp \<noteq> [] \<and> is_digit (hd rp)
         then number_loop (n - 1) to val' rp
         else (val', rp))"

definition get_number :: "nat \<Rightarrow> nat \<Rightarrow> nat \<Rightarrow> string \<Rightarrow> (nat \<times> string) option" where
  "get_number from to n rp0 =
     (let rp = dropWhile is_space rp0
      in case rp of
           [] \<Rightarrow> None
         | c # _ \<Rightarrow>
             if \<not> is_digit c then None
             else (let (val, rp') = number_loop n to 0 rp
                   in if val < from \<or> to < val then None else Some (val, rp')))"

definition match_char :: "char \<Rightarrow> string \<Rightarrow> string option" where
  "match_char ch rp = (case rp of [] \<Rightarrow> None | c # rp' \<Rightarrow> if c = ch then Some rp' else None)"

text \<open>
  The format is read left to right; each directive either fails, which ends the
  call with \<^verbatim>\<open>tm\<close> as it is, or stores its field and goes on with \<open>rest\<close>.
\<close>

definition conversion ::
  "nat \<Rightarrow> nat \<Rightarrow> nat \<Rightarrow> (int \<Rightarrow> tm \<Rightarrow> tm) \<Rightarrow> (string \<Rightarrow> tm \<Rightarrow> tm) \<Rightarrow> string \<Rightarrow> tm \<Rightarrow> tm" where
  "conversion from to n store rest rp t =
     (case get_number from to n rp of
        None \<Rightarrow> t
      | Some (val, rp') \<Rightarrow> rest rp' (store (int val) t))"

definition literal :: "char \<Rightarrow> (string \<Rightarrow> tm \<Rightarrow> tm) \<Rightarrow> string \<Rightarrow> tm \<Rightarrow> tm" where
  "literal ch rest rp t = (case match_char ch rp of None \<Rightarrow> t | Some rp' \<Rightarrow> rest rp' t)"

definition white_space :: "(string \<Rightarrow> tm \<Rightarrow> tm) \<Rightarrow> string \<Rightarrow> tm \<Rightarrow> tm" where
  "white_space rest rp t = rest (dropWhile is_space rp) t"

definition utc_strptime :: "string \<Rightarrow> tm \<Rightarrow> tm" where
  "utc_strptime =
     conversion 0 9999 4 (\<lambda>val t. t\<lparr>tm_year := val - 1900\<rparr>)
    (literal CHR ''-''
    (conversion 1 12 2 (\<lambda>val t. t\<lparr>tm_mon := val - 1\<rparr>)
    (literal CHR ''-''
    (conversion 1 31 2 (\<lambda>val t. t\<lparr>tm_mday := val\<rparr>)
    (white_space
    (conversion 0 23 2 (\<lambda>val t. t\<lparr>tm_hour := val\<rparr>)
    (literal CHR '':''
    (conversion 0 59 2 (\<lambda>val t. t\<lparr>tm_min := val\<rparr>)
    (literal CHR '':''
    (conversion 0 61 2 (\<lambda>val t. t\<lparr>tm_sec := val\<rparr>)
    (\<lambda>rp t. t)))))))))))"

definition days_from_civil :: "int \<Rightarrow> int \<Rightarrow> int \<Rightarrow> int" where
  \<comment> \<open>days from 1970-01-01 to day \<open>d\<close> of month \<open>m\<close> (1 to 12) of year \<open>y\<close>\<close>
  "days_from_civil y m d =
     (let y' = (if m \<le> 2 then y - 1 else y);
          era = y' div 400;
          yoe = y' - era * 400;
          doy = (153 * (if 2 < m then m - 3 else m + 9) + 2) div 5 + d - 1;
          doe = yoe * 365 + yoe div 4 - yoe div 100 + doy
      in era * 146097 + doe - 719468)"

definition utc_mktime :: "tm \<Rightarrow> time_t" where
  "utc_mktime t =
     days_from_civil (1900 + tm_year t + tm_mon t div 12) (tm_mon t mod 12 + 1) (tm_mday t) * 86400
       + tm_hour t * 3600 + tm_min t * 60 + tm_sec t"

definition odd_integer :: "real \<Rightarrow> bool" where
  "odd_integer y \<longleftrightarrow> y \<in> \<int> \<and> odd \<lfloor>y\<rfloor>"

definition reference_pow :: "double \<Rightarrow> double \<Rightarrow> double" where
  "reference_pow a b =
     (if is_zero b \<or> a = Num 1 then Num 1
      else if is_nan a \<or> is_nan b then NaN
      else if is_inf b then
        (if a = Num (- 1) then Num 1
         else if \<not> is_inf a \<and> \<bar>value_of a\<bar> < 1 then (if b = NInf then PInf else Num 0)
         else (if b = NInf then Num 0 else PInf))
      else if is_zero a then
        (if value_of b < 0 then infinity (negative a \<and> odd_integer (value_of b))
         else signed_zero (negative a \<and> odd_integer (value_of b)))
      else if a = PInf then (if value_of b < 0 then Num 0 else PInf)
      else if a = NInf then
        (if value_of b < 0 then signed_zero (odd_integer (value_of b))
         else infinity (odd_integer (value_of b)))
      else if 0 < value_of a then round64 (value_of a powr value_of b)
      else if value_of b \<in> \<int> then round64 (value_of a powi \<lfloor>value_of b\<rfloor>)
      else NaN)"

definition reference_libc :: libc where
  "reference_libc = \<lparr>strptime = utc_strptime, mktime = utc_mktime, pow = reference_pow\<rparr>"

section \<open>The trade ledger\<close>

record Trade =
  timeStampStr :: string
  quantity :: long
  buySellIndicator :: char
  price :: long

abbreviation getTimeStamp :: "Trade \<Rightarrow> string" where
  "getTimeStamp t \<equiv> timeStampStr t"

abbreviation getQuantity :: "Trade \<Rightarrow> long" where
  "getQuantity t \<equiv> quantity t"

abbreviation getBuySellIndicator :: "Trade \<Rightarrow> char" where
  "getBuySellIndicator t \<equiv> buySellIndicator t"

abbreviation getPrice :: "Trade \<Rightarrow> long" where
  "getPrice t \<equiv> price t"

text \<open>
  \<^verbatim>\<open>multimap<time_t, Trade*>\<close>: the entries in iteration order, which is the order
  of the keys. Every \<^verbatim>\<open>Trade*\<close> comes from a \<^verbatim>\<open>new\<close> of \<^verbatim>\<open>recordTrade\<close> and is
  reachable through the map alone, so an entry holds the record itself.
  \<^verbatim>\<open>insert\<close> puts an entry behind the entries of the same key; \<^verbatim>\<open>lower_bound\<close>
  is the position of the first entry whose key is not less than the given one,
  here the entries from that position to \<^verbatim>\<open>end()\<close>.
\<close>

type_synonym multimap = "(time_t \<times> Trade) list"

fun multimap_insert :: "time_t \<times> Trade \<Rightarrow> multimap \<Rightarrow> multimap" where
  "multimap_insert kv [] = [kv]"
| "multimap_insert kv (e # es) =
     (if fst kv < fst e then kv # e # es else e # multimap_insert kv es)"

definition lower_bound :: "time_t \<Rightarrow> multimap \<Rightarrow> multimap" where
  "lower_bound k m = dropWhile (\<lambda>e. fst e < k) m"

record StoreTrades =
  trades :: multimap

definition StoreTrades_new :: StoreTrades where
  \<comment> \<open>the implicit default constructor: an empty map\<close>
  "StoreTrades_new = \<lparr>trades = []\<rparr>"

text \<open>
  \<^verbatim>\<open>int recordTrade(...)\<close> has no \<^verbatim>\<open>return\<close> statement. Its body has no
  \<^verbatim>\<open>throw\<close> and does not look at what \<^verbatim>\<open>strptime\<close> returns; when control reaches
  the closing brace of a function that must return a value, the behaviour of
  the call is undefined in C++. The model gives the two facts side by side: how
  the call ends (always \<open>No_return_statement\<close>) and the object as the body has
  left it by then. What is proved of that object holds in the runs where the
  call does come back to its caller, as in a build without optimisation.
\<close>

datatype completion = Returns int | No_return_statement

definition recordTrade ::
  "libc \<Rightarrow> string \<Rightarrow> long \<Rightarrow> char \<Rightarrow> long \<Rightarrow> StoreTrades \<Rightarrow> completion \<times> StoreTrades" where
  "recordTrade lib timeStamp inputQuantity inputBuySellIndicator inputPrice self =
     (let trade = \<lparr>timeStampStr = timeStamp, quantity = inputQuantity,
                    buySellIndicator = inputBuySellIndicator, price = inputPrice\<rparr>;
          tm0 = memset_tm;
          tm1 = strptime lib (c_str timeStamp) tm0;
          tradeTime = mktime lib tm1
      in (No_return_statement,
          self\<lparr>trades := multimap_insert (tradeTime, trade) (trades self)\<rparr>))"

fun vwsp_loop :: "multimap \<Rightarrow> double \<times> double \<Rightarrow> double \<times> double" where
  \<comment> \<open>the \<^verbatim>\<open>for\<close> loop of \<^verbatim>\<open>getVolumeWeightedStockPrice\<close> over the entries left to visit\<close>
  "vwsp_loop [] acc = acc"
| "vwsp_loop (it # rest) (accumulatedQuantity, accumulatedPrice) =
     vwsp_loop rest
       (dadd accumulatedQuantity (of_long (getQuantity (snd it))),
        dadd accumulatedPrice (of_long (getQuantity (snd it) * getPrice (snd it))))"

definition window_sums :: "time_t \<Rightarrow> StoreTrades \<Rightarrow> double \<times> double" where
  \<comment> \<open>\<open>(accumulatedQuantity, accumulatedPrice)\<close> when the loop ends\<close>
  "window_sums currentTime self =
     (let fifteenMinutesBackTime = currentTime - 15 * 60
      in vwsp_loop (lower_bound fifteenMinutesBackTime (trades self)) (Num 0, Num 0))"

definition getVolumeWeightedStockPrice ::
  "time_t \<Rightarrow> StoreTrades \<Rightarrow> (error + double) \<times> StoreTrades" where
  \<comment> \<open>the result or the exception thrown, and the object as the call leaves it\<close>
  "getVolumeWeightedStockPrice currentTime self =
     (let (accumulatedQuantity, accumulatedPrice) = window_sums currentTime self
      in (if dne accumulatedQuantity (Num 0)
          then Inr (ddiv accumulatedPrice accumulatedQuantity)
          else Inl NoTradesFound,
          self))"

fun gm_loop :: "multimap \<Rightarrow> double \<Rightarrow> double" where
  \<comment> \<open>the \<^verbatim>\<open>for\<close> loop of \<^verbatim>\<open>calculateGeometricMean\<close>\<close>
  "gm_loop [] accumulatedPrice = accumulatedPrice"
| "gm_loop (it # rest) accumulatedPrice =
     gm_loop rest (dmul accumulatedPrice (of_long (getPrice (snd it))))"

definition calculateGeometricMean ::
  "libc \<Rightarrow> StoreTrades \<Rightarrow> (error + double) \<times> StoreTrades" where
  "calculateGeometricMean lib self =
     (let accumulatedPrice = gm_loop (trades self) (Num 1)
      in (if length (trades self) \<noteq> 0
          then Inr (pow lib accumulatedPrice (ddiv (Num 1) (of_size (length (trades self)))))
          else Inl NoTradesFound,
          self))"

text \<open>
  The invariant of the map: the keys ascend. It holds for the empty ledger and
  the body of \<^verbatim>\<open>recordTrade\<close> keeps it, so it holds in every state a program
  can reach.
\<close>

definition ordered :: "StoreTrades \<Rightarrow> bool" where
  "ordered self \<longleftrightarrow> sorted (map fst (trades self))"

text \<open>
  The entries a query at \<open>currentTime\<close> is meant to see: those whose key is not
  more than fifteen minutes old, whatever lies ahead of the clock included.
\<close>

definition in_window :: "time_t \<Rightarrow> time_t \<times> Trade \<Rightarrow> bool" where
  "in_window currentTime e \<longleftrightarrow> currentTime - 900 \<le> fst e"

definition qualifying :: "time_t \<Rightarrow> StoreTrades \<Rightarrow> multimap" where
  "qualifying currentTime self = filter (in_window currentTime) (trades self)"

text \<open>
  The sums and the product the two queries are about, over a list of entries,
  as numbers: \<open>total_quantity\<close> and \<open>exact_value\<close> add the integers the fields
  stand for and their products, \<open>price_product\<close> multiplies the prices.
\<close>

definition total_quantity :: "multimap \<Rightarrow> real" where
  "total_quantity m = (\<Sum>e\<leftarrow>m. long_val (getQuantity (snd e)))"

definition exact_value :: "multimap \<Rightarrow> real" where
  "exact_value m = (\<Sum>e\<leftarrow>m. long_val (getQuantity (snd e)) * long_val (getPrice (snd e)))"

definition price_product :: "multimap \<Rightarrow> real" where
  "price_product m = (\<Prod>e\<leftarrow>m. long_val (getPrice (snd e)))"

text \<open>
  When the loops compute without rounding: every integer up to \<open>2 ^ 53\<close> in
  magnitude is a \<^verbatim>\<open>double\<close>, so sums whose terms add up to no more than that in
  magnitude are exact at every step, and so are the products of positive
  prices up to that bound.
\<close>

definition quantity_magnitude :: "multimap \<Rightarrow> int" where
  "quantity_magnitude m = (\<Sum>e\<leftarrow>m. \<bar>sint (getQuantity (snd e))\<bar>)"

definition value_magnitude :: "multimap \<Rightarrow> int" where
  "value_magnitude m = (\<Sum>e\<leftarrow>m. \<bar>sint (getQuantity (snd e)) * sint (getPrice (snd e))\<bar>)"

definition exact_sums :: "multimap \<Rightarrow> bool" where
  "exact_sums m \<longleftrightarrow> quantity_magnitude m \<le> 2 ^ 53 \<and> value_magnitude m \<le> 2 ^ 53"

definition positive_prices :: "multimap \<Rightarrow> bool" where
  "positive_prices m = list_all (\<lambda>e. 0 < sint (getPrice (snd e))) m"

definition exact_product :: "multimap \<Rightarrow> bool" where
  "exact_product m \<longleftrightarrow> positive_prices m \<and> price_product m \<le> 2 ^ 53"

definition nonnegative_quantities :: "multimap \<Rightarrow> bool" where
  "nonnegative_quantities m = list_all (\<lambda>e. 0 \<le> sint (getQuantity (snd e))) m"

definition zero_quantities :: "multimap \<Rightarrow> bool" where
  "zero_quantities m = list_all (\<lambda>e. getQuantity (snd e) = 0) m"


text \<open>
  What a query reads of an entry: its key, its quantity and its price. The text
  of the time stamp and the buy or sell indicator are stored and never read.
\<close>

definition read_fields :: "time_t \<times> Trade \<Rightarrow> time_t \<times> long \<times> long" where
  "read_fields e = (fst e, getQuantity (snd e), getPrice (snd e))"

text \<open>
  The pattern \<^verbatim>\<open>YYYY-MM-DD HH:MM:SS\<close> in the words of the specification:
  nineteen characters, a digit where the pattern has a letter and the
  pattern's own character elsewhere.
\<close>

definition pattern_char :: "char \<Rightarrow> char \<Rightarrow> bool" where
  "pattern_char p c =
     (if p \<in> set ''YMDHS'' then is_digit c else c = p)"

definition timestamp_pattern :: "string \<Rightarrow> bool" where
  "timestamp_pattern s = list_all2 pattern_char ''YYYY-MM-DD HH:MM:SS'' s"

text \<open>
  The entry the body of \<^verbatim>\<open>recordTrade\<close> inserts: its key and its record.
\<close>

definition recorded_key :: "libc \<Rightarrow> string \<Rightarrow> time_t" where
  "recorded_key lib timeStamp = mktime lib (strptime lib (c_str timeStamp) memset_tm)"

definition recorded_trade :: "string \<Rightarrow> long \<Rightarrow> char \<Rightarrow> long \<Rightarrow> Trade" where
  "recorded_trade timeStamp inputQuantity inputBuySellIndicator inputPrice =
     \<lparr>timeStampStr = timeStamp, quantity = inputQuantity,
      buySellIndicator = inputBuySellIndicator, price = inputPrice\<rparr>"

text \<open>
  Ledgers for concrete runs, recorded through the reference library. The
  first: two trades at 10:00:00 and 10:00:05, one at 09:45:04 and one at
  11:00:00. The second: a trade at price 1 an hour before a trade at price
  100. The third: two trades in the same second whose quantities \<open>2 ^ 53 + 1\<close>
  and \<open>- (2 ^ 53)\<close> add up to 1. The fourth: three trades at the prices \<open>- 2\<close>,
  \<open>- 4\<close> and \<open>- 1\<close>. The fifth: one trade of \<open>2 ^ 62\<close> units at price 2.
  The sixth: one trade of five units at price 0. The seventh: one trade of
  one unit at price 4. The eighth: the same call seventeen times, each a
  trade of one unit at the price \<open>2 ^ 62\<close>.
\<close>

definition example_ledger :: StoreTrades where
  "example_ledger =
     snd (recordTrade reference_libc ''2024-01-01 11:00:00'' 300 CHR ''S'' 70
    (snd (recordTrade reference_libc ''2024-01-01 09:45:04'' 7 CHR ''S'' 1000
    (snd (recordTrade reference_libc ''2024-01-01 10:00:05'' 200 CHR ''B'' 60
    (snd (recordTrade reference_libc ''2024-01-01 10:00:00'' 100 CHR ''B'' 50
       StoreTrades_new)))))))"

definition old_and_new_ledger :: StoreTrades where
  "old_and_new_ledger =
     snd (recordTrade reference_libc ''2024-01-01 10:00:00'' 3 CHR ''B'' 100
    (snd (recordTrade reference_libc ''2024-01-01 09:00:00'' 5 CHR ''S'' 1 StoreTrades_new)))"


definition negative_ledger :: StoreTrades where
  "negative_ledger =
     snd (recordTrade reference_libc ''2024-01-01 10:00:02'' 1 CHR ''B'' (- 1)
    (snd (recordTrade reference_libc ''2024-01-01 10:00:01'' 1 CHR ''B'' (- 4)
    (snd (recordTrade reference_libc ''2024-01-01 10:00:00'' 1 CHR ''B'' (- 2)
       StoreTrades_new)))))"

definition overflow_ledger :: StoreTrades where
  "overflow_ledger =
     snd (recordTrade reference_libc ''2024-01-01 10:00:00'' (2 ^ 62) CHR ''B'' 2 StoreTrades_new)"

definition unpriced_ledger :: StoreTrades where
  "unpriced_ledger =
     snd (recordTrade reference_libc ''2024-01-01 10:00:00'' 5 CHR ''B'' 0 StoreTrades_new)"

definition first_trade_ledger :: StoreTrades where
  "first_trade_ledger =
     snd (recordTrade reference_libc ''2024-01-01 10:00:00'' 1 CHR ''B'' 4 StoreTrades_new)"

definition large_ledger :: StoreTrades where
  "large_ledger =
     ((\<lambda>self. snd (recordTrade reference_libc ''2024-01-01 10:00:00'' 1 CHR ''B'' (2 ^ 62) self))
        ^^ 17) StoreTrades_new"

text \<open>
  A ledger with every buy or sell indicator replaced.
\<close>

definition flipped :: "StoreTrades \<Rightarrow> StoreTrades" where
  "flipped self =
     self\<lparr>trades := map (\<lambda>e. (fst e, (snd e)\<lparr>buySellIndicator := CHR ''X''\<rparr>)) (trades self)\<rparr>"

text \<open>
  The states of a \<^verbatim>\<open>StoreTrades\<close> object in a program: it starts empty, and
  only its three member functions touch the private map.
\<close>

inductive reachable :: "libc \<Rightarrow> StoreTrades \<Rightarrow> bool" for lib :: libc where
  new: "reachable lib StoreTrades_new"
| recorded: "reachable lib self \<Longrightarrow> reachable lib (snd (recordTrade lib ts q b p self))"
| priced: "reachable lib self \<Longrightarrow> reachable lib (snd (getVolumeWeightedStockPrice now self))"
| averaged: "reachable lib self \<Longrightarrow> reachable lib (snd (calculateGeometricMean lib self))"

section \<open>Facts about rounding\<close>

lemma two_powr_of_int: "(2::real) powr real_of_int k = 2 powi k"
  by (rule powr_real_of_int') simp_all

lemma floor_log2_eq:
  assumes "2 powi e \<le> x" and "x < 2 powi (e + 1)"
  shows "\<lfloor>log 2 x\<rfloor> = e"
proof -
  have "0 < (2::real) powi e" by simp
  with assms(1) have x: "0 < x" by linarith
  have "2 powr real_of_int e \<le> x \<and> x < 2 powr real_of_int (e + 1)"
    using assms by (simp only: two_powr_of_int)
  then show ?thesis
    using floor_log_eq_powr_iff [OF x, of 2 e] by simp
qed

lemma floor_log2_bounds:
  assumes "0 < x"
  shows "2 powi \<lfloor>log 2 x\<rfloor> \<le> x" and "x < 2 powi (\<lfloor>log 2 x\<rfloor> + 1)"
proof -
  have "2 powr real_of_int \<lfloor>log 2 x\<rfloor> \<le> x \<and> x < 2 powr real_of_int (\<lfloor>log 2 x\<rfloor> + 1)"
    using floor_log_eq_powr_iff [OF assms, of 2 "\<lfloor>log 2 x\<rfloor>"] by simp
  then show "2 powi \<lfloor>log 2 x\<rfloor> \<le> x" and "x < 2 powi (\<lfloor>log 2 x\<rfloor> + 1)"
    by (simp_all only: two_powr_of_int)
qed

lemma ulp_exp_eq:
  assumes "2 powi e \<le> \<bar>x\<bar>" and "\<bar>x\<bar> < 2 powi (e + 1)"
  shows "ulp_exp x = max e (- 1022) - 52"
  by (simp add: ulp_exp_def floor_log2_eq [OF assms])

lemma round_even_of_int: "round_even (of_int k) = k"
  by (simp add: round_even_def)


lemma round64_normal:
  assumes "2 powi e \<le> \<bar>x\<bar>" and "\<bar>x\<bar> < 2 powi (e + 1)"
    and "- 1022 \<le> e" and "e \<le> 1022"
  shows "round64 x =
     (if round_even (x / 2 powi (e - 52)) = 0 then signed_zero (x < 0)
      else Num (of_int (round_even (x / 2 powi (e - 52))) * 2 powi (e - 52)))"
proof -
  have pos: "0 < (2::real) powi e" by simp
  have "0 < \<bar>x\<bar>" using pos assms(1) by linarith
  then have x: "x \<noteq> 0" by simp
  have u: "ulp_exp x = e - 52"
    using ulp_exp_eq [OF assms(1,2)] assms(3) by simp
  have "(2::real) powi (e + 1) \<le> 2 powi 1023"
    using assms(4) by (intro power_int_increasing) simp_all
  with assms(2) have "\<bar>x\<bar> < 2 ^ 1023" by simp
  moreover have "(2::real) ^ 1023 \<le> 2 ^ 1024 - 2 ^ 970" by simp
  ultimately have "\<not> 2 ^ 1024 - 2 ^ 970 \<le> \<bar>x\<bar>" by linarith
  with x show ?thesis by (simp add: round64_def nearest_def u)
qed

lemma round64_exact:
  assumes "2 powi e \<le> \<bar>x\<bar>" and "\<bar>x\<bar> < 2 powi (e + 1)"
    and "- 1022 \<le> e" and "e \<le> 1022"
    and "x / 2 powi (e - 52) = of_int k"
  shows "round64 x = Num x"
proof -
  have pos: "0 < (2::real) powi e" by simp
  have "0 < \<bar>x\<bar>" using pos assms(1) by linarith
  then have x: "x \<noteq> 0" by simp
  have xk: "x = of_int k * 2 powi (e - 52)"
    using assms(5) by (simp add: field_simps)
  with x have "k \<noteq> 0" by auto
  with round64_normal [OF assms(1-4)] xk show ?thesis
    by (simp add: assms(5) round_even_of_int)
qed

lemma round64_of_int:
  assumes "\<bar>n\<bar> \<le> 2 ^ 53"
  shows "round64 (of_int n) = Num (of_int n)"
proof (cases "n = 0")
  case True
  then show ?thesis by (simp add: round64_def)
next
  case False
  define x :: real where "x = of_int n"
  define e where "e = \<lfloor>log 2 \<bar>x\<bar>\<rfloor>"
  have x0: "0 < \<bar>x\<bar>" using False by (simp add: x_def)
  have lo: "2 powi e \<le> \<bar>x\<bar>" and hi: "\<bar>x\<bar> < 2 powi (e + 1)"
    unfolding e_def using floor_log2_bounds [OF x0] by simp_all
  have x1: "1 \<le> \<bar>x\<bar>" using False by (simp add: x_def flip: of_int_abs)
  have x53: "\<bar>x\<bar> \<le> 2 ^ 53"
  proof -
    have "real_of_int \<bar>n\<bar> \<le> real_of_int (2 ^ 53)" using assms by (simp only: of_int_le_iff)
    then show ?thesis by (simp add: x_def)
  qed
  have e0: "0 \<le> e"
  proof (rule ccontr)
    assume "\<not> 0 \<le> e"
    then have "e + 1 \<le> 0" by simp
    then have "(2::real) powi (e + 1) \<le> 2 powi 0" by (intro power_int_increasing) simp_all
    with hi x1 show False by simp
  qed
  have e53: "e \<le> 53"
  proof (rule ccontr)
    assume "\<not> e \<le> 53"
    then have "54 \<le> e" by simp
    then have "(2::real) powi 54 \<le> 2 powi e" by (intro power_int_increasing) simp_all
    with lo x53 show False by simp
  qed
  have "\<exists>k. x / 2 powi (e - 52) = of_int k"
  proof (cases "e \<le> 52")
    case True
    then have "(2::real) powi (e - 52) = 1 / 2 ^ nat (52 - e)"
      using power_int_minus_divide [of "2::real" "52 - e"] by (simp add: power_int_nonneg_exp)
    then have "x / 2 powi (e - 52) = of_int (n * 2 ^ nat (52 - e))"
      by (simp add: x_def)
    then show ?thesis ..
  next
    case False
    with e53 have e: "e = 53" by simp
    with lo x53 have "\<bar>x\<bar> = 2 ^ 53" by simp
    then have "x = 2 ^ 53 \<or> x = - (2 ^ 53)" by (simp add: abs_if split: if_splits)
    then have "x / 2 powi (e - 52) = of_int (2 ^ 52) \<or> x / 2 powi (e - 52) = of_int (- (2 ^ 52))"
      by (auto simp: e)
    then show ?thesis by blast
  qed
  then obtain k where "x / 2 powi (e - 52) = of_int k" ..
  from round64_exact [OF lo hi _ _ this] e0 e53 show ?thesis
    by (simp add: x_def)
qed


lemma long_val_eq_0: "long_val n = 0 \<longleftrightarrow> n = 0"
  by (simp add: long_val_def signed_eq_0_iff)

lemma long_val_positive: "0 < long_val n \<longleftrightarrow> 0 < sint n"
  by (simp only: long_val_def of_int_0_less_iff)


lemma of_long_exact: "\<bar>sint n\<bar> \<le> 2 ^ 53 \<Longrightarrow> of_long n = Num (long_val n)"
  unfolding of_long_def long_val_def by (rule round64_of_int)



lemma of_size_exact: "n \<le> 2 ^ 53 \<Longrightarrow> of_size n = Num (real n)"
proof -
  assume "n \<le> 2 ^ 53"
  then have "int n \<le> int (2 ^ 53)" by (simp only: of_nat_le_iff)
  then have "\<bar>int n\<bar> \<le> 2 ^ 53" by simp
  then have "round64 (of_int (int n)) = Num (of_int (int n))" by (rule round64_of_int)
  then show ?thesis by (simp add: of_size_def)
qed

lemma dadd_int:
  assumes "\<bar>a + b\<bar> \<le> 2 ^ 53"
  shows "dadd (Num (of_int a)) (Num (of_int b)) = Num (of_int (a + b))"
proof (cases "a + b = 0")
  case True
  then have "real_of_int a + real_of_int b = 0" by (simp flip: of_int_add)
  with True show ?thesis by (simp add: dadd_def signed_zero_def)
next
  case False
  then have "real_of_int a + real_of_int b \<noteq> 0" by (simp flip: of_int_add)
  with round64_of_int [OF assms] show ?thesis by (simp add: dadd_def)
qed

lemma dmul_int:
  assumes "\<bar>a * b\<bar> \<le> 2 ^ 53" and "a * b \<noteq> 0"
  shows "dmul (Num (of_int a)) (Num (of_int b)) = Num (of_int (a * b))"
proof -
  have "real_of_int a * real_of_int b \<noteq> 0" using assms(2) by simp
  with round64_of_int [OF assms(1)] show ?thesis by (simp add: dmul_def is_zero_def)
qed

lemma ddiv_finite:
  assumes "x \<noteq> 0" and "y \<noteq> 0"
  shows "ddiv (Num x) (Num y) = round64 (x / y)"
  using assms by (simp add: ddiv_def is_zero_def)




section \<open>Facts about the ledger\<close>

lemma set_multimap_insert: "set (multimap_insert kv m) = insert kv (set m)"
  by (induction m) auto

lemma sorted_multimap_insert:
  "sorted (map fst m) \<Longrightarrow> sorted (map fst (multimap_insert kv m))"
  by (induction m) (auto simp: set_multimap_insert)

lemma mset_multimap_insert: "mset (multimap_insert kv m) = add_mset kv (mset m)"
  by (induction m) auto

lemma length_multimap_insert: "length (multimap_insert kv m) = Suc (length m)"
  by (induction m) auto

lemma lower_bound_filter:
  "sorted (map fst m) \<Longrightarrow> lower_bound k m = filter (\<lambda>e. k \<le> fst e) m"
proof (induction m)
  case Nil
  show ?case by (simp add: lower_bound_def)
next
  case (Cons e es)
  show ?case
  proof (cases "fst e < k")
    case True
    with Cons show ?thesis by (simp add: lower_bound_def)
  next
    case False
    with Cons.prems have "\<forall>x\<in>set es. k \<le> fst x" by auto
    then have "filter (\<lambda>e. k \<le> fst e) es = es" by (simp add: filter_id_conv)
    with False show ?thesis by (simp add: lower_bound_def)
  qed
qed

lemma lower_bound_qualifying:
  "ordered self \<Longrightarrow> lower_bound (now - 15 * 60) (trades self) = qualifying now self"
  by (simp add: ordered_def lower_bound_filter qualifying_def in_window_def [abs_def])

lemma lower_bound_insert:
  "k \<le> fst kv \<Longrightarrow> lower_bound k (multimap_insert kv m) = multimap_insert kv (lower_bound k m)"
  by (induction m) (auto simp: lower_bound_def)

lemma window_sums_qualifying:
  "ordered self \<Longrightarrow> window_sums now self = vwsp_loop (qualifying now self) (Num 0, Num 0)"
  using lower_bound_qualifying [of self now] by (simp add: window_sums_def Let_def)

lemma getVolumeWeightedStockPrice_sums:
  "fst (getVolumeWeightedStockPrice now self) =
     (if dne (fst (window_sums now self)) (Num 0)
      then Inr (ddiv (snd (window_sums now self)) (fst (window_sums now self)))
      else Inl NoTradesFound)"
  by (simp add: getVolumeWeightedStockPrice_def split: prod.split)

lemma calculateGeometricMean_pow:
  "fst (calculateGeometricMean lib self) =
     (if trades self \<noteq> []
      then Inr (pow lib (gm_loop (trades self) (Num 1))
                  (ddiv (Num 1) (of_size (length (trades self)))))
      else Inl NoTradesFound)"
  by (simp add: calculateGeometricMean_def)

lemma query_states:
  "snd (getVolumeWeightedStockPrice now self) = self"
  "snd (calculateGeometricMean lib self) = self"
  by (simp_all add: getVolumeWeightedStockPrice_def calculateGeometricMean_def Let_def
        split: prod.split)

lemma ordered_new: "ordered StoreTrades_new"
  by (simp add: ordered_def StoreTrades_new_def)

lemma recordTrade_parts:
  "recordTrade lib ts q b p self =
     (No_return_statement,
      self\<lparr>trades := multimap_insert (recorded_key lib ts, recorded_trade ts q b p) (trades self)\<rparr>)"
  by (simp add: recordTrade_def Let_def recorded_key_def recorded_trade_def)

lemma trades_recordTrade:
  "trades (snd (recordTrade lib ts q b p self)) =
     multimap_insert (recorded_key lib ts, recorded_trade ts q b p) (trades self)"
  by (simp add: recordTrade_parts)

lemma ordered_recordTrade: "ordered self \<Longrightarrow> ordered (snd (recordTrade lib ts q b p self))"
  by (simp add: ordered_def trades_recordTrade sorted_multimap_insert)

lemma reachable_ordered: "reachable lib self \<Longrightarrow> ordered self"
  by (induction rule: reachable.induct)
     (simp_all add: ordered_new ordered_recordTrade query_states)

lemma qualifying_recordTrade:
  assumes "ordered self" and "now - 15 * 60 \<le> recorded_key lib ts"
  shows "qualifying now (snd (recordTrade lib ts q b p self)) =
     multimap_insert (recorded_key lib ts, recorded_trade ts q b p) (qualifying now self)"
proof -
  have "qualifying now (snd (recordTrade lib ts q b p self)) =
      lower_bound (now - 15 * 60) (trades (snd (recordTrade lib ts q b p self)))"
    using ordered_recordTrade [OF assms(1)] by (simp only: lower_bound_qualifying)
  also have "\<dots> = multimap_insert (recorded_key lib ts, recorded_trade ts q b p)
      (lower_bound (now - 15 * 60) (trades self))"
    using assms(2) by (simp only: trades_recordTrade) (simp add: lower_bound_insert)
  finally show ?thesis
    by (simp only: lower_bound_qualifying [OF assms(1)])
qed

subsection \<open>The sums as integers\<close>

lemma total_quantity_int:
  "total_quantity m = real_of_int (\<Sum>e\<leftarrow>m. sint (getQuantity (snd e)))"
  by (induction m) (simp_all add: total_quantity_def long_val_def)

lemma exact_value_int:
  "exact_value m = real_of_int (\<Sum>e\<leftarrow>m. sint (getQuantity (snd e)) * sint (getPrice (snd e)))"
  by (induction m) (simp_all add: exact_value_def long_val_def)

lemma quantity_magnitude_nonneg: "0 \<le> quantity_magnitude m"
  by (induction m) (simp_all add: quantity_magnitude_def)

lemma value_magnitude_nonneg: "0 \<le> value_magnitude m"
  by (induction m) (simp_all add: value_magnitude_def)

lemma sint_mult_small:
  fixes a b :: long
  assumes "\<bar>sint a * sint b\<bar> \<le> 2 ^ 53"
  shows "sint (a * b) = sint a * sint b"
proof -
  have "- (2 ^ 63) \<le> sint a * sint b" and "sint a * sint b < 2 ^ 63"
    using assms by (simp_all add: abs_le_iff)
  then show ?thesis
    by (simp add: sint_word_mult signed_take_bit_int_eq_self)
qed

lemma vwsp_loop_exact:
  assumes "\<bar>a\<bar> + quantity_magnitude m \<le> 2 ^ 53" and "\<bar>b\<bar> + value_magnitude m \<le> 2 ^ 53"
  shows "vwsp_loop m (Num (of_int a), Num (of_int b)) =
     (Num (of_int a + total_quantity m), Num (of_int b + exact_value m))"
  using assms
proof (induction m arbitrary: a b)
  case Nil
  show ?case by (simp add: total_quantity_def exact_value_def)
next
  case (Cons e es)
  let ?q = "sint (getQuantity (snd e))" and ?p = "sint (getPrice (snd e))"
  have qm: "quantity_magnitude (e # es) = \<bar>?q\<bar> + quantity_magnitude es"
    and vm: "value_magnitude (e # es) = \<bar>?q * ?p\<bar> + value_magnitude es"
    by (simp_all add: quantity_magnitude_def value_magnitude_def)
  have q53: "\<bar>?q\<bar> \<le> 2 ^ 53" and aq: "\<bar>a + ?q\<bar> + quantity_magnitude es \<le> 2 ^ 53"
    using Cons.prems(1) quantity_magnitude_nonneg [of es] unfolding qm by linarith+
  have v53: "\<bar>?q * ?p\<bar> \<le> 2 ^ 53" and bv: "\<bar>b + ?q * ?p\<bar> + value_magnitude es \<le> 2 ^ 53"
    using Cons.prems(2) value_magnitude_nonneg [of es] unfolding vm by linarith+
  have aq53: "\<bar>a + ?q\<bar> \<le> 2 ^ 53"
    using aq quantity_magnitude_nonneg [of es] by linarith
  have bv53: "\<bar>b + ?q * ?p\<bar> \<le> 2 ^ 53"
    using bv value_magnitude_nonneg [of es] by linarith
  have prod: "sint (getQuantity (snd e) * getPrice (snd e)) = ?q * ?p"
    using v53 by (rule sint_mult_small)
  have cq: "of_long (getQuantity (snd e)) = Num (of_int ?q)"
    using of_long_exact [OF q53] by (simp add: long_val_def)
  have cv: "of_long (getQuantity (snd e) * getPrice (snd e)) = Num (of_int (?q * ?p))"
    using of_long_exact [of "getQuantity (snd e) * getPrice (snd e)"] v53
    by (simp add: long_val_def prod)
  have "vwsp_loop (e # es) (Num (of_int a), Num (of_int b)) =
      vwsp_loop es (dadd (Num (of_int a)) (of_long (getQuantity (snd e))),
        dadd (Num (of_int b)) (of_long (getQuantity (snd e) * getPrice (snd e))))"
    by simp
  also have "\<dots> = vwsp_loop es (Num (of_int (a + ?q)), Num (of_int (b + ?q * ?p)))"
    by (simp only: cq cv dadd_int [OF aq53] dadd_int [OF bv53])
  also have "\<dots> = (Num (of_int (a + ?q) + total_quantity es),
      Num (of_int (b + ?q * ?p) + exact_value es))"
    using aq bv by (rule Cons.IH)
  finally show ?case
    by (simp add: total_quantity_def exact_value_def long_val_def add.assoc)
qed

lemma window_sums_exact:
  assumes "ordered self" and "exact_sums (qualifying now self)"
  shows "window_sums now self =
     (Num (total_quantity (qualifying now self)), Num (exact_value (qualifying now self)))"
proof -
  have "vwsp_loop (qualifying now self) (Num (of_int 0), Num (of_int 0)) =
      (Num (of_int 0 + total_quantity (qualifying now self)),
       Num (of_int 0 + exact_value (qualifying now self)))"
    using assms(2) by (intro vwsp_loop_exact) (simp_all add: exact_sums_def)
  then show ?thesis
    by (simp add: window_sums_qualifying [OF assms(1)])
qed

subsection \<open>The sum of quantities that are not negative\<close>





lemma zero_quantities_sum: "zero_quantities m \<Longrightarrow> nonnegative_quantities m"
  by (simp add: zero_quantities_def nonnegative_quantities_def list_all_iff)

subsection \<open>The product of positive prices\<close>

lemma price_product_ge_1: "positive_prices m \<Longrightarrow> 1 \<le> price_product m"
proof (induction m)
  case Nil
  show ?case by (simp add: price_product_def)
next
  case (Cons e es)
  then have "0 < sint (getPrice (snd e))" and es: "positive_prices es"
    by (simp_all add: positive_prices_def)
  then have "1 \<le> sint (getPrice (snd e))" by simp
  then have "real_of_int 1 \<le> real_of_int (sint (getPrice (snd e)))" by (simp only: of_int_le_iff)
  then have "1 \<le> long_val (getPrice (snd e))" by (simp add: long_val_def)
  moreover have "1 \<le> price_product es" using es by (rule Cons.IH)
  ultimately have "1 * 1 \<le> long_val (getPrice (snd e)) * price_product es"
    by (intro mult_mono) simp_all
  then show ?case by (simp add: price_product_def)
qed

lemma price_product_positive: "positive_prices m \<Longrightarrow> 0 < price_product m"
  using price_product_ge_1 [of m] by simp

lemma gm_loop_exact:
  assumes "positive_prices m" and "1 \<le> a" and "of_int a * price_product m \<le> 2 ^ 53"
  shows "gm_loop m (Num (of_int a)) = Num (of_int a * price_product m)"
  using assms
proof (induction m arbitrary: a)
  case Nil
  show ?case by (simp add: price_product_def)
next
  case (Cons e es)
  define p where "p = sint (getPrice (snd e))"
  from Cons.prems(1) have p: "1 \<le> p" and es: "positive_prices es"
    by (simp_all add: positive_prices_def p_def)
  have lv: "long_val (getPrice (snd e)) = of_int p"
    by (simp only: long_val_def p_def)
  have pp: "price_product (e # es) = of_int p * price_product es"
    by (simp add: price_product_def lv)
  have rest: "1 \<le> price_product es" using es by (rule price_product_ge_1)
  have ap: "1 \<le> a * p" using mult_mono [of 1 a 1 p] Cons.prems(2) p by simp
  then have "0 \<le> a * p" by simp
  then have apr: "0 \<le> real_of_int (a * p)" by (simp only: of_int_0_le_iff)
  have bound: "real_of_int (a * p) * price_product es \<le> 2 ^ 53"
    using Cons.prems(3) by (simp add: pp mult.assoc)
  have "real_of_int (a * p) * 1 \<le> real_of_int (a * p) * price_product es"
    using rest apr by (rule mult_left_mono)
  with bound have "real_of_int (a * p) \<le> real_of_int (2 ^ 53)" by simp
  then have ap53: "a * p \<le> 2 ^ 53" by (simp only: of_int_le_iff)
  have "p \<le> a * p" using Cons.prems(2) p by (simp add: mult_le_cancel_right1)
  with ap53 p have "\<bar>p\<bar> \<le> 2 ^ 53" by linarith
  then have p53: "\<bar>sint (getPrice (snd e))\<bar> \<le> 2 ^ 53" unfolding p_def .
  have cp: "of_long (getPrice (snd e)) = Num (of_int p)"
    using of_long_exact [OF p53] by (simp only: lv)
  have "\<bar>a * p\<bar> \<le> 2 ^ 53" and "a * p \<noteq> 0"
    using ap53 ap by linarith+
  then have m: "dmul (Num (of_int a)) (Num (of_int p)) = Num (of_int (a * p))"
    by (rule dmul_int)
  have "gm_loop (e # es) (Num (of_int a)) =
      gm_loop es (dmul (Num (of_int a)) (of_long (getPrice (snd e))))"
    by simp
  also have "\<dots> = gm_loop es (Num (of_int (a * p)))"
    by (simp only: cp m)
  also have "\<dots> = Num (of_int (a * p) * price_product es)"
    using es ap bound by (rule Cons.IH)
  finally show ?case by (simp add: pp mult.assoc)
qed

subsection \<open>An entry more\<close>

lemma total_quantity_insert:
  "total_quantity (multimap_insert kv m) = total_quantity m + long_val (getQuantity (snd kv))"
  by (induction m) (simp_all add: total_quantity_def)

lemma exact_value_insert:
  "exact_value (multimap_insert kv m) =
     exact_value m + long_val (getQuantity (snd kv)) * long_val (getPrice (snd kv))"
  by (induction m) (simp_all add: exact_value_def)

lemma price_product_insert:
  "price_product (multimap_insert kv m) = price_product m * long_val (getPrice (snd kv))"
  by (induction m) (simp_all add: price_product_def)

subsection \<open>What the loops read\<close>

lemma vwsp_loop_read_fields:
  "map read_fields m = map read_fields m' \<Longrightarrow> vwsp_loop m acc = vwsp_loop m' acc"
proof (induction m arbitrary: m' acc)
  case Nil
  then show ?case by simp
next
  case (Cons e es)
  then obtain e' es' where m': "m' = e' # es'" by (cases m') auto
  with Cons.prems have e: "read_fields e = read_fields e'"
    and es: "map read_fields es = map read_fields es'"
    by simp_all
  from e have "getQuantity (snd e) = getQuantity (snd e')" and "getPrice (snd e) = getPrice (snd e')"
    by (simp_all add: read_fields_def)
  with Cons.IH [OF es] m' show ?case
    by (cases acc) simp
qed

lemma gm_loop_read_fields:
  "map read_fields m = map read_fields m' \<Longrightarrow> gm_loop m acc = gm_loop m' acc"
proof (induction m arbitrary: m' acc)
  case Nil
  then show ?case by simp
next
  case (Cons e es)
  then obtain e' es' where m': "m' = e' # es'" by (cases m') auto
  with Cons.prems have e: "read_fields e = read_fields e'"
    and es: "map read_fields es = map read_fields es'"
    by simp_all
  from e have "getPrice (snd e) = getPrice (snd e')"
    by (simp add: read_fields_def)
  with Cons.IH [OF es] m' show ?case
    by simp
qed

lemma lower_bound_read_fields:
  "map read_fields m = map read_fields m' \<Longrightarrow>
     map read_fields (lower_bound k m) = map read_fields (lower_bound k m')"
proof (induction m arbitrary: m')
  case Nil
  then show ?case by (simp add: lower_bound_def)
next
  case (Cons e es)
  then obtain e' es' where m': "m' = e' # es'" by (cases m') auto
  with Cons.prems have e: "read_fields e = read_fields e'"
    and es: "map read_fields es = map read_fields es'"
    by simp_all
  from e have "fst e = fst e'"
    by (simp add: read_fields_def)
  with Cons.IH [OF es] m' e es show ?case
    by (simp add: lower_bound_def)
qed

subsection \<open>The example ledgers\<close>

lemma reference_key:
  "recorded_key reference_libc ts = utc_mktime (utc_strptime (c_str ts) memset_tm)"
  by (simp add: recorded_key_def reference_libc_def)

lemma utc_key_0900:
  "utc_mktime (utc_strptime (c_str ''2024-01-01 09:00:00'') memset_tm) = 1704099600"
  by code_simp

lemma utc_key_0945:
  "utc_mktime (utc_strptime (c_str ''2024-01-01 09:45:04'') memset_tm) = 1704102304"
  by code_simp

lemma utc_key_1000:
  "utc_mktime (utc_strptime (c_str ''2024-01-01 10:00:00'') memset_tm) = 1704103200"
  by code_simp

lemma utc_key_1001:
  "utc_mktime (utc_strptime (c_str ''2024-01-01 10:00:01'') memset_tm) = 1704103201"
  by code_simp

lemma utc_key_1002:
  "utc_mktime (utc_strptime (c_str ''2024-01-01 10:00:02'') memset_tm) = 1704103202"
  by code_simp

lemma utc_key_1005:
  "utc_mktime (utc_strptime (c_str ''2024-01-01 10:00:05'') memset_tm) = 1704103205"
  by code_simp

lemma utc_key_1100:
  "utc_mktime (utc_strptime (c_str ''2024-01-01 11:00:00'') memset_tm) = 1704106800"
  by code_simp

lemma utc_key_yesterday:
  "utc_mktime (utc_strptime (c_str ''yesterday'') memset_tm) = - 2209075200"
  by code_simp

lemmas utc_keys = utc_key_0900 utc_key_0945 utc_key_1000 utc_key_1001 utc_key_1002 utc_key_1005 utc_key_1100 utc_key_yesterday

lemma reference_keys:
  "recorded_key reference_libc ''2024-01-01 09:00:00'' = 1704099600"
  "recorded_key reference_libc ''2024-01-01 09:45:04'' = 1704102304"
  "recorded_key reference_libc ''2024-01-01 10:00:00'' = 1704103200"
  "recorded_key reference_libc ''2024-01-01 10:00:01'' = 1704103201"
  "recorded_key reference_libc ''2024-01-01 10:00:02'' = 1704103202"
  "recorded_key reference_libc ''2024-01-01 10:00:05'' = 1704103205"
  "recorded_key reference_libc ''2024-01-01 11:00:00'' = 1704106800"
  "recorded_key reference_libc ''yesterday'' = - 2209075200"
  by (simp_all only: recorded_key_def reference_libc_def libc.simps utc_keys)

lemma example_ledger_trades:
  "example_ledger = \<lparr>trades =
     [(1704102304, \<lparr>timeStampStr = ''2024-01-01 09:45:04'', quantity = 7,
         buySellIndicator = CHR ''S'', price = 1000\<rparr>),
      (1704103200, \<lparr>timeStampStr = ''2024-01-01 10:00:00'', quantity = 100,
         buySellIndicator = CHR ''B'', price = 50\<rparr>),
      (1704103205, \<lparr>timeStampStr = ''2024-01-01 10:00:05'', quantity = 200,
         buySellIndicator = CHR ''B'', price = 60\<rparr>),
      (1704106800, \<lparr>timeStampStr = ''2024-01-01 11:00:00'', quantity = 300,
         buySellIndicator = CHR ''S'', price = 70\<rparr>)]\<rparr>"
  by (simp add: example_ledger_def recordTrade_parts reference_keys recorded_trade_def
        StoreTrades_new_def)

lemma old_and_new_ledger_trades:
  "old_and_new_ledger = \<lparr>trades =
     [(1704099600, \<lparr>timeStampStr = ''2024-01-01 09:00:00'', quantity = 5,
         buySellIndicator = CHR ''S'', price = 1\<rparr>),
      (1704103200, \<lparr>timeStampStr = ''2024-01-01 10:00:00'', quantity = 3,
         buySellIndicator = CHR ''B'', price = 100\<rparr>)]\<rparr>"
  by (simp add: old_and_new_ledger_def recordTrade_parts reference_keys recorded_trade_def
        StoreTrades_new_def)


lemma negative_ledger_trades:
  "negative_ledger = \<lparr>trades =
     [(1704103200, \<lparr>timeStampStr = ''2024-01-01 10:00:00'', quantity = 1,
         buySellIndicator = CHR ''B'', price = - 2\<rparr>),
      (1704103201, \<lparr>timeStampStr = ''2024-01-01 10:00:01'', quantity = 1,
         buySellIndicator = CHR ''B'', price = - 4\<rparr>),
      (1704103202, \<lparr>timeStampStr = ''2024-01-01 10:00:02'', quantity = 1,
         buySellIndicator = CHR ''B'', price = - 1\<rparr>)]\<rparr>"
  by (simp add: negative_ledger_def recordTrade_parts reference_keys recorded_trade_def
        StoreTrades_new_def)

lemma overflow_ledger_trades:
  "overflow_ledger = \<lparr>trades =
     [(1704103200, \<lparr>timeStampStr = ''2024-01-01 10:00:00'', quantity = 2 ^ 62,
         buySellIndicator = CHR ''B'', price = 2\<rparr>)]\<rparr>"
  by (simp add: overflow_ledger_def recordTrade_parts reference_keys recorded_trade_def
        StoreTrades_new_def)

subsection \<open>Values of the arithmetic\<close>

lemma round64_half: "round64 (1 / 2) = Num (1 / 2)"
  using round64_exact [of "- 1" "1 / 2" "2 ^ 52"] by simp

lemma round64_5_2: "round64 (5 / 2) = Num (5 / 2)"
  using round64_exact [of 1 "5 / 2" "5 * 2 ^ 50"] by simp

lemma round64_15_4: "round64 (15 / 4) = Num (15 / 4)"
  using round64_exact [of 1 "15 / 4" "15 * 2 ^ 49"] by simp

lemma round64_third: "round64 (1 / 3) = Num (6004799503160661 / 2 ^ 54)"
  using round64_normal [of "- 2" "1 / 3"] by (simp add: round_even_def Let_def)

lemma round64_190_3: "round64 (190 / 3) = Num (8913374262504107 / 2 ^ 47)"
  using round64_normal [of 5 "190 / 3"] by (simp add: round_even_def Let_def)

lemma round64_2_53_1: "round64 (2 ^ 53 + 1) = Num (2 ^ 53)"
  using round64_normal [of 53 "2 ^ 53 + 1"] by (simp add: round_even_def Let_def)

lemma round64_2_62: "round64 (2 ^ 62) = Num (2 ^ 62)"
  using round64_exact [of 62 "2 ^ 62" "2 ^ 52"] by simp

lemma round64_m2_63: "round64 (- (2 ^ 63)) = Num (- (2 ^ 63))"
  using round64_exact [of 63 "- (2 ^ 63)" "- (2 ^ 52)"] by simp

subsection \<open>More values of the arithmetic\<close>

lemma round64_numerals:
  "round64 4611686018427387904 = Num 4611686018427387904"
  "round64 (- 9223372036854775808) = Num (- 9223372036854775808)"
  "round64 9007199254740993 = Num 9007199254740992"
  using round64_2_62 round64_m2_63 round64_2_53_1 by simp_all

lemma round64_power2: "m \<le> 1022 \<Longrightarrow> round64 (2 ^ m) = Num (2 ^ m)"
  using round64_exact [of "int m" "2 ^ m" "2 ^ 52"]
  by (simp add: power_int_add power_int_diff)

lemma round64_overflow: "1024 \<le> m \<Longrightarrow> round64 (2 ^ m) = PInf"
proof -
  assume "1024 \<le> m"
  then have "(2::real) ^ 1024 \<le> 2 ^ m"
    by (intro power_increasing) simp_all
  then show ?thesis by (simp add: round64_def infinity_def)
qed

lemma of_long_2_62: "of_long 4611686018427387904 = Num 4611686018427387904"
  using round64_power2 [of 62] by (simp add: of_long_def long_val_def)

lemma dmul_power2:
  "k \<le> 960 \<Longrightarrow> dmul (Num (2 ^ k)) (of_long 4611686018427387904) = Num (2 ^ (k + 62))"
  using round64_power2 [of "k + 62"]
  by (simp add: of_long_2_62 dmul_def is_zero_def power_add)

lemma round64_17: "round64 (1 / 17) = Num (4238682002231055 / 2 ^ 56)"
  using round64_normal [of "- 5" "1 / 17"] by (simp add: round_even_def Let_def)

lemma reference_sqrt_100: "reference_pow (Num 100) (Num (1 / 2)) = Num 10"
proof -
  have "(100::real) powr (1 / 2) = sqrt 100" by (simp add: powr_half_sqrt)
  also have "\<dots> = sqrt (10 ^ 2)" by simp
  also have "\<dots> = 10" by (simp only: real_sqrt_abs)
  finally have "(100::real) powr (1 / 2) = 10" .
  moreover have "round64 10 = Num 10" using round64_of_int [of 10] by simp
  ultimately show ?thesis by (simp add: reference_pow_def is_zero_def)
qed

lemma reference_sqrt_64: "reference_pow (Num 64) (Num (1 / 2)) = Num 8"
proof -
  have "(64::real) powr (1 / 2) = sqrt 64" by (simp add: powr_half_sqrt)
  also have "\<dots> = sqrt (8 ^ 2)" by simp
  also have "\<dots> = 8" by (simp only: real_sqrt_abs)
  finally have "(64::real) powr (1 / 2) = 8" .
  moreover have "round64 8 = Num 8" using round64_of_int [of 8] by simp
  ultimately show ?thesis by (simp add: reference_pow_def is_zero_def)
qed

subsection \<open>More facts about the loops\<close>


lemma multimap_insert_last:
  "\<forall>x\<in>set m. fst x \<le> fst kv \<Longrightarrow> multimap_insert kv m = m @ [kv]"
  by (induction m) simp_all

lemma vwsp_loop_append:
  "vwsp_loop (m @ [e]) (a, b) =
     (dadd (fst (vwsp_loop m (a, b))) (of_long (getQuantity (snd e))),
      dadd (snd (vwsp_loop m (a, b))) (of_long (getQuantity (snd e) * getPrice (snd e))))"
  by (induction m arbitrary: a b) simp_all

lemma qualifying_subset: "set (qualifying now self) \<subseteq> set (trades self)"
  by (simp add: qualifying_def)

lemma gm_loop_append:
  "gm_loop (m @ [e]) a = dmul (gm_loop m a) (of_long (getPrice (snd e)))"
  by (induction m arbitrary: a) simp_all

lemma gm_loop_replicate:
  assumes "getPrice (snd e) = 4611686018427387904"
  shows "k + 62 * n \<le> 1022 \<Longrightarrow> gm_loop (replicate n e) (Num (2 ^ k)) = Num (2 ^ (k + 62 * n))"
proof (induction n arbitrary: k)
  case 0
  show ?case by simp
next
  case (Suc n)
  from Suc.prems have k: "k \<le> 960" and "(k + 62) + 62 * n \<le> 1022" by simp_all
  with Suc.IH [of "k + 62"] show ?case
    by (simp add: assms dmul_power2 [OF k] add.assoc)
qed

lemma price_product_replicate:
  "price_product (replicate n e) = long_val (getPrice (snd e)) ^ n"
  by (induction n) (simp_all add: price_product_def)

lemma recorded_again:
  "(((\<lambda>self. snd (recordTrade lib ts q b p self)) ^^ n) StoreTrades_new) =
     \<lparr>trades = replicate n (recorded_key lib ts, recorded_trade ts q b p)\<rparr>"
proof (induction n)
  case 0
  show ?case by (simp add: StoreTrades_new_def)
next
  case (Suc n)
  have "multimap_insert (recorded_key lib ts, recorded_trade ts q b p)
      (replicate n (recorded_key lib ts, recorded_trade ts q b p)) =
      replicate n (recorded_key lib ts, recorded_trade ts q b p)
        @ [(recorded_key lib ts, recorded_trade ts q b p)]"
    by (induction n) simp_all
  with Suc show ?case
    by (simp add: recordTrade_parts replicate_append_same)
qed

subsection \<open>Runs on the example ledgers\<close>

lemma example_window:
  "qualifying 1704103205 example_ledger =
     [(1704103200, \<lparr>timeStampStr = ''2024-01-01 10:00:00'', quantity = 100,
         buySellIndicator = CHR ''B'', price = 50\<rparr>),
      (1704103205, \<lparr>timeStampStr = ''2024-01-01 10:00:05'', quantity = 200,
         buySellIndicator = CHR ''B'', price = 60\<rparr>),
      (1704106800, \<lparr>timeStampStr = ''2024-01-01 11:00:00'', quantity = 300,
         buySellIndicator = CHR ''S'', price = 70\<rparr>)]"
  by (simp add: example_ledger_trades qualifying_def in_window_def)

lemma example_sums:
  "ordered example_ledger"
  "exact_sums (qualifying 1704103205 example_ledger)"
  "total_quantity (qualifying 1704103205 example_ledger) = 600"
  "exact_value (qualifying 1704103205 example_ledger) = 38000"
  unfolding example_window
  by (simp_all add: example_ledger_trades ordered_def exact_sums_def quantity_magnitude_def
        value_magnitude_def total_quantity_def exact_value_def long_val_def)

lemma example_result:
  "fst (getVolumeWeightedStockPrice 1704103205 example_ledger) =
     Inr (Num (8913374262504107 / 2 ^ 47))"
proof -
  have "fst (getVolumeWeightedStockPrice 1704103205 example_ledger) =
      Inr (round64 (38000 / 600))"
    using window_sums_exact [OF example_sums(1,2)]
    by (simp add: getVolumeWeightedStockPrice_sums example_sums(3,4) dne_def ddiv_finite)
  then show ?thesis by (simp add: round64_190_3)
qed

lemma unpriced_ledger_trades:
  "trades unpriced_ledger =
     [(1704103200, \<lparr>timeStampStr = ''2024-01-01 10:00:00'', quantity = 5,
        buySellIndicator = CHR ''B'', price = 0\<rparr>)]"
  by (simp add: unpriced_ledger_def recordTrade_parts reference_keys recorded_trade_def
        StoreTrades_new_def)

lemma unpriced_sums:
  "ordered unpriced_ledger"
  "exact_sums (qualifying 1704103200 unpriced_ledger)"
  "total_quantity (qualifying 1704103200 unpriced_ledger) = 5"
  "exact_value (qualifying 1704103200 unpriced_ledger) = 0"
  by (simp_all add: unpriced_ledger_trades ordered_def qualifying_def in_window_def
        exact_sums_def quantity_magnitude_def value_magnitude_def total_quantity_def
        exact_value_def long_val_def)


lemma negative_ledger_mean:
  "fst (calculateGeometricMean reference_libc negative_ledger) = Inr NaN
   \<and> length (trades negative_ledger) = 3
   \<and> price_product (trades negative_ledger) = - 8
   \<and> root 3 (- 8) = - 2"
proof -
  have r: "root 3 (- 8 :: real) = - 2"
  proof -
    have "root 3 ((2::real) ^ 3) = 2" by (rule real_root_power_cancel) simp_all
    then have "root 3 (8::real) = 2" by simp
    then show ?thesis by (simp add: real_root_minus)
  qed
  have vals: "round64 (- 2) = Num (- 2)" "round64 (- 4) = Num (- 4)" "round64 (- 1) = Num (- 1)"
    "round64 8 = Num 8" "round64 (- 8) = Num (- 8)" "round64 3 = Num 3"
    using round64_of_int [of "- 2"] round64_of_int [of "- 4"] round64_of_int [of "- 1"]
      round64_of_int [of 8] round64_of_int [of "- 8"] round64_of_int [of 3]
    by simp_all
  have g: "gm_loop (trades negative_ledger) (Num 1) = Num (- 8)"
    by (simp add: negative_ledger_trades of_long_def long_val_def dmul_def is_zero_def vals)
  have e: "ddiv (Num 1) (of_size (length (trades negative_ledger))) =
      Num (6004799503160661 / 2 ^ 54)"
    by (simp add: negative_ledger_trades of_size_def vals ddiv_finite round64_third)
  have "(6004799503160661 / 2 ^ 54 :: real) \<notin> \<int>"
  proof
    assume "(6004799503160661 / 2 ^ 54 :: real) \<in> \<int>"
    then obtain k :: int where k: "(6004799503160661 / 2 ^ 54 :: real) = of_int k"
      by (auto elim: Ints_cases)
    then have "0 < real_of_int k" and "real_of_int k < 1" by simp_all
    then have "0 < k" and "k < 1" by (simp_all only: of_int_0_less_iff of_int_less_1_iff)
    then show False by simp
  qed
  then have "reference_pow (Num (- 8)) (Num (6004799503160661 / 2 ^ 54)) = NaN"
    by (simp add: reference_pow_def is_zero_def)
  moreover have "trades negative_ledger \<noteq> []"
    by (simp add: negative_ledger_trades)
  ultimately have "fst (calculateGeometricMean reference_libc negative_ledger) = Inr NaN"
    by (simp only: calculateGeometricMean_pow g e reference_libc_def libc.simps) simp
  moreover have "length (trades negative_ledger) = 3"
    by (simp add: negative_ledger_trades)
  moreover have "price_product (trades negative_ledger) = - 8"
    by (simp add: negative_ledger_trades price_product_def long_val_def)
  ultimately show ?thesis using r by simp
qed

lemma first_trade_ledger_trades:
  "trades first_trade_ledger =
     [(1704103200, \<lparr>timeStampStr = ''2024-01-01 10:00:00'', quantity = 1,
        buySellIndicator = CHR ''B'', price = 4\<rparr>)]"
  by (simp add: first_trade_ledger_def recordTrade_parts reference_keys recorded_trade_def
        StoreTrades_new_def)

lemma large_ledger_trades:
  "trades large_ledger =
     replicate 17 (1704103200, \<lparr>timeStampStr = ''2024-01-01 10:00:00'', quantity = 1,
        buySellIndicator = CHR ''B'', price = 2 ^ 62\<rparr>)"
  by (simp only: large_ledger_def recorded_again reference_keys recorded_trade_def) simp

lemma large_ledger_loop: "gm_loop (trades large_ledger) (Num 1) = PInf"
proof -
  let ?e = "(1704103200::int, \<lparr>timeStampStr = ''2024-01-01 10:00:00'', quantity = 1,
        buySellIndicator = CHR ''B'', price = 2 ^ 62\<rparr>)"
  have "gm_loop (replicate 16 ?e) (Num (2 ^ 0)) = Num (2 ^ (0 + 62 * 16))"
    by (rule gm_loop_replicate) simp_all
  then have "gm_loop (replicate 16 ?e) (Num 1) = Num (2 ^ 992)"
    by simp
  moreover have "replicate 17 ?e = replicate 16 ?e @ [?e]"
    using replicate_append_same [of 16 ?e] by (simp only: replicate_Suc [symmetric]) simp
  ultimately have "gm_loop (replicate 17 ?e) (Num 1) = dmul (Num (2 ^ 992)) (of_long (2 ^ 62))"
    by (simp only: gm_loop_append) simp
  also have "\<dots> = round64 (2 ^ 992 * 2 ^ 62)"
    by (simp add: of_long_2_62 dmul_def is_zero_def)
  also have "\<dots> = round64 (2 ^ 1054)"
    by (simp only: power_add [symmetric]) simp
  also have "\<dots> = PInf"
    by (rule round64_overflow) simp
  finally show ?thesis
    by (simp only: large_ledger_trades)
qed

lemma large_ledger_mean:
  "fst (calculateGeometricMean reference_libc large_ledger) = Inr PInf"
proof -
  have "round64 17 = Num 17"
    using round64_of_int [of 17] by simp
  then have e: "ddiv (Num 1) (of_size (length (trades large_ledger))) =
      Num (4238682002231055 / 2 ^ 56)"
    by (simp add: large_ledger_trades of_size_def ddiv_finite round64_17)
  have "reference_pow PInf (Num (4238682002231055 / 2 ^ 56)) = PInf"
    by (simp add: reference_pow_def is_zero_def)
  moreover have "trades large_ledger \<noteq> []"
    by (simp add: large_ledger_trades)
  ultimately show ?thesis
    by (simp only: calculateGeometricMean_pow large_ledger_loop e reference_libc_def libc.simps)
      simp
qed

lemma large_ledger_product:
  "length (trades large_ledger) = 17"
  "positive_prices (trades large_ledger)"
  "price_product (trades large_ledger) = (2 ^ 62) ^ 17"
  "root 17 ((2 ^ 62) ^ 17) = 2 ^ 62"
proof -
  show "length (trades large_ledger) = 17"
    by (simp add: large_ledger_trades)
  show "positive_prices (trades large_ledger)"
    by (simp add: large_ledger_trades positive_prices_def list_all_length)
  show "price_product (trades large_ledger) = (2 ^ 62) ^ 17"
    by (simp only: large_ledger_trades price_product_replicate) (simp add: long_val_def)
  show "root 17 ((2 ^ 62) ^ 17) = (2 ^ 62 :: real)"
    by (rule real_root_power_cancel) simp_all
qed

section \<open>Claims about the pricing formulas\<close>

text \<open>
  Claim C4. For every price, last dividend, fixed dividend and par value,
  \<^verbatim>\<open>calculateDividendYield\<close> returns \<open>lastDividend / price\<close> for the trade type
  Common and \<open>(fixedDividend * parValue) / price\<close> for Preferred. The quotient
  and the product are those of \<^verbatim>\<open>double\<close>, on the price and the par value
  converted to \<^verbatim>\<open>double\<close>: each rounds, may overflow to an infinity, and a price
  of zero divides by zero. Where nothing but the quotient rounds (a price
  other than zero of magnitude up to \<open>2 ^ 53\<close>, a last dividend that is a number
  other than zero), the Common result is the \<^verbatim>\<open>double\<close> nearest to the quotient
  of the real numbers.
\<close>

theorem calculateDividendYield_formula:
  "calculateDividendYield pr ''Common'' lastDividend fixedDividend parValue
     = Inr (ddiv lastDividend (of_long pr))
   \<and> calculateDividendYield pr ''Preferred'' lastDividend fixedDividend parValue
     = Inr (ddiv (dmul fixedDividend (of_long parValue)) (of_long pr))
   \<and> (pr \<noteq> 0 \<and> \<bar>sint pr\<bar> \<le> 2 ^ 53 \<and> l \<noteq> 0 \<longrightarrow>
        calculateDividendYield pr ''Common'' (Num l) fixedDividend parValue
          = Inr (round64 (l / long_val pr)))"
proof -
  have "ddiv (Num l) (of_long pr) = round64 (l / long_val pr)"
    if "pr \<noteq> 0" and "\<bar>sint pr\<bar> \<le> 2 ^ 53" and "l \<noteq> 0"
    using that by (simp add: of_long_exact ddiv_finite long_val_eq_0)
  then show ?thesis
    by (simp add: calculateDividendYield_def COMMON_def PREFERRED_def)
qed

theorem calculateDividendYield_formula_witness:
  "(4 :: long) \<noteq> 0 \<and> \<bar>sint (4 :: long)\<bar> \<le> 2 ^ 53 \<and> (2 :: real) \<noteq> 0
   \<and> calculateDividendYield 4 ''Common'' (Num 2) (Num 3) 5 = Inr (Num (1 / 2))
   \<and> calculateDividendYield 4 ''Preferred'' (Num 2) (Num 3) 5 = Inr (Num (15 / 4))"
proof -
  have four: "of_long 4 = Num 4" and five: "of_long 5 = Num 5"
    using of_long_exact [of 4] of_long_exact [of 5] by (simp_all add: long_val_def)
  have m: "dmul (Num 3) (Num 5) = Num 15"
    using dmul_int [of 3 5] by simp
  have d: "ddiv (Num 15) (Num 4) = Num (15 / 4)"
    by (simp add: ddiv_finite round64_15_4)
  show ?thesis
    using calculateDividendYield_formula [where pr = 4 and lastDividend = "Num 2" and fixedDividend = "Num 3"
        and parValue = 5 and l = 2]
    by (simp add: long_val_def round64_half four five m d ddiv_finite)
qed

text \<open>
  Claim C5. For every trade type other than Common and Preferred,
  \<^verbatim>\<open>calculateDividendYield\<close> throws \<^verbatim>\<open>invalid_argument("Invalid Trade Type")\<close>
  and returns no value, whatever the numeric arguments are.
\<close>

theorem calculateDividendYield_invalid:
  assumes "tradeType \<noteq> ''Common''" and "tradeType \<noteq> ''Preferred''"
  shows "calculateDividendYield pr tradeType lastDividend fixedDividend parValue
           = Inl (invalid_argument ''Invalid Trade Type'')"
  using assms by (simp add: calculateDividendYield_def COMMON_def PREFERRED_def)

theorem calculateDividendYield_invalid_witness:
  "''common'' \<noteq> ''Common'' \<and> ''common'' \<noteq> ''Preferred''
   \<and> calculateDividendYield 4 ''common'' (Num 2) PInf 5
       = Inl (invalid_argument ''Invalid Trade Type'')"
  using calculateDividendYield_invalid
    [where tradeType = "''common''" and pr = 4 and lastDividend = "Num 2"
       and fixedDividend = PInf and parValue = 5]
  by simp

text \<open>
  Claim C6. For every price and every dividend, \<^verbatim>\<open>calculatePERatio\<close> returns
  \<open>price / dividend\<close>, the quotient of \<^verbatim>\<open>double\<close> on the converted price; it
  checks nothing and throws nothing, so a dividend of zero gives an infinity
  (or NaN for a price of zero). For a price other than zero of magnitude up to
  \<open>2 ^ 53\<close> and a dividend that is a number other than zero, the result is the
  \<^verbatim>\<open>double\<close> nearest to the quotient of the real numbers.
\<close>

theorem calculatePERatio_quotient:
  "calculatePERatio pr dividend = ddiv (of_long pr) dividend
   \<and> (pr \<noteq> 0 \<and> \<bar>sint pr\<bar> \<le> 2 ^ 53 \<and> d \<noteq> 0 \<longrightarrow>
        calculatePERatio pr (Num d) = round64 (long_val pr / d))"
  by (simp add: calculatePERatio_def of_long_exact ddiv_finite long_val_eq_0)

theorem calculatePERatio_quotient_witness:
  "(10 :: long) \<noteq> 0 \<and> \<bar>sint (10 :: long)\<bar> \<le> 2 ^ 53 \<and> (4 :: real) \<noteq> 0
   \<and> calculatePERatio 10 (Num 4) = Num (5 / 2)
   \<and> calculatePERatio 10 (Num 0) = PInf
   \<and> calculatePERatio 10 NegZero = NInf"
proof -
  have ten: "of_long 10 = Num 10"
    using of_long_exact [of 10] by (simp add: long_val_def)
  show ?thesis
    using calculatePERatio_quotient [where pr = 10 and dividend = "Num 0" and d = 4]
      calculatePERatio_quotient [where pr = 10 and dividend = NegZero and d = 4]
    by (simp add: long_val_def round64_5_2 ten ddiv_def is_zero_def infinity_def)
qed

section \<open>Claims about the trade ledger\<close>

text \<open>
  Claim C1, as amended. In every state of the ledger whose keys ascend (every
  state a program reaches) and at every current time, the loop of
  \<^verbatim>\<open>getVolumeWeightedStockPrice\<close> visits exactly the entries whose key is at
  least the current time minus 15 minutes, with no upper bound, and adds their
  quantities and their products quantity times price, in \<^verbatim>\<open>double\<close>, in the
  order of the keys; when the sum of the quantities is not zero the result is
  the \<^verbatim>\<open>double\<close> quotient of the two sums. When the magnitudes of the quantities
  and those of the products each add up to no more than \<open>2 ^ 53\<close>, the two sums
  are the sums of the integers, and the result is the \<^verbatim>\<open>double\<close> nearest to
  the sum of the products divided by the sum of the quantities, a zero if the
  products add up to zero. In the witness the clock is at 10:00:05: the trade of
  09:45:04 is one second too old, and the trade of 11:00:00, ahead of the clock,
  counts.
\<close>

theorem getVolumeWeightedStockPrice_window:
  assumes "ordered self"
  shows "lower_bound (now - 15 * 60) (trades self) = qualifying now self
       \<and> mset (qualifying now self) =
           filter_mset (\<lambda>e. now - 15 * 60 \<le> fst e) (mset (trades self))
       \<and> window_sums now self = vwsp_loop (qualifying now self) (Num 0, Num 0)
       \<and> fst (getVolumeWeightedStockPrice now self) =
           (if dne (fst (window_sums now self)) (Num 0)
            then Inr (ddiv (snd (window_sums now self)) (fst (window_sums now self)))
            else Inl NoTradesFound)
       \<and> (exact_sums (qualifying now self) \<longrightarrow>
            window_sums now self =
              (Num (total_quantity (qualifying now self)), Num (exact_value (qualifying now self)))
          \<and> (total_quantity (qualifying now self) \<noteq> 0
               \<and> exact_value (qualifying now self) \<noteq> 0 \<longrightarrow>
             fst (getVolumeWeightedStockPrice now self) =
               Inr (round64 (exact_value (qualifying now self)
                              / total_quantity (qualifying now self))))
          \<and> (total_quantity (qualifying now self) \<noteq> 0
               \<and> exact_value (qualifying now self) = 0 \<longrightarrow>
             fst (getVolumeWeightedStockPrice now self) =
               Inr (signed_zero (total_quantity (qualifying now self) < 0))))"
proof -
  have m: "mset (qualifying now self) =
      filter_mset (\<lambda>e. now - 15 * 60 \<le> fst e) (mset (trades self))"
    by (simp add: qualifying_def in_window_def [abs_def])
  have z: "ddiv (Num 0) (Num Q) = signed_zero (Q < 0)" if "Q \<noteq> 0" for Q
    using that by (simp add: ddiv_def is_zero_def)
  show ?thesis
    using m lower_bound_qualifying [OF assms, of now] window_sums_qualifying [OF assms, of now]
      window_sums_exact [OF assms, of now]
    by (auto simp add: getVolumeWeightedStockPrice_sums dne_def ddiv_finite z)
qed

theorem getVolumeWeightedStockPrice_window_witness:
  "ordered example_ledger
   \<and> exact_sums (qualifying 1704103205 example_ledger)
   \<and> total_quantity (qualifying 1704103205 example_ledger) = 600
   \<and> exact_value (qualifying 1704103205 example_ledger) = 38000
   \<and> fst (getVolumeWeightedStockPrice 1704103205 example_ledger)
       = Inr (Num (8913374262504107 / 2 ^ 47))
   \<and> ordered unpriced_ledger
   \<and> exact_sums (qualifying 1704103200 unpriced_ledger)
   \<and> total_quantity (qualifying 1704103200 unpriced_ledger) = 5
   \<and> exact_value (qualifying 1704103200 unpriced_ledger) = 0
   \<and> fst (getVolumeWeightedStockPrice 1704103200 unpriced_ledger) = Inr (Num 0)"
proof -
  from getVolumeWeightedStockPrice_window [OF example_sums(1), of 1704103205] example_sums(2)
  have "total_quantity (qualifying 1704103205 example_ledger) \<noteq> 0
      \<and> exact_value (qualifying 1704103205 example_ledger) \<noteq> 0 \<longrightarrow>
    fst (getVolumeWeightedStockPrice 1704103205 example_ledger) =
      Inr (round64 (exact_value (qualifying 1704103205 example_ledger)
                     / total_quantity (qualifying 1704103205 example_ledger)))"
    by blast
  then have a: "fst (getVolumeWeightedStockPrice 1704103205 example_ledger)
       = Inr (Num (8913374262504107 / 2 ^ 47))"
    by (simp add: example_sums round64_190_3)
  from getVolumeWeightedStockPrice_window [OF unpriced_sums(1), of 1704103200] unpriced_sums(2)
  have "total_quantity (qualifying 1704103200 unpriced_ledger) \<noteq> 0
      \<and> exact_value (qualifying 1704103200 unpriced_ledger) = 0 \<longrightarrow>
    fst (getVolumeWeightedStockPrice 1704103200 unpriced_ledger) =
      Inr (signed_zero (total_quantity (qualifying 1704103200 unpriced_ledger) < 0))"
    by blast
  then have b: "fst (getVolumeWeightedStockPrice 1704103200 unpriced_ledger) = Inr (Num 0)"
    by (simp add: unpriced_sums signed_zero_def)
  show ?thesis
    using example_sums unpriced_sums a b by simp
qed

text \<open>
  Claim C1 as stated does not hold for every ledger: the loop multiplies in
  \<^verbatim>\<open>long\<close>. One trade of \<open>2 ^ 62\<close> units at price 2, recorded at the current
  time: the product \<open>2 ^ 63\<close> wraps to \<open>- (2 ^ 63)\<close> and the result is \<open>- 2\<close>,
  where the sum of the products over the sum of the quantities is 2.
\<close>

theorem getVolumeWeightedStockPrice_overflow:
  "fst (getVolumeWeightedStockPrice 1704103200
          (snd (recordTrade reference_libc ''2024-01-01 10:00:00'' (2 ^ 62) CHR ''B'' 2
             StoreTrades_new)))
     = Inr (Num (- 2))
   \<and> exact_value (qualifying 1704103200
          (snd (recordTrade reference_libc ''2024-01-01 10:00:00'' (2 ^ 62) CHR ''B'' 2
             StoreTrades_new)))
       / total_quantity (qualifying 1704103200
          (snd (recordTrade reference_libc ''2024-01-01 10:00:00'' (2 ^ 62) CHR ''B'' 2
             StoreTrades_new)))
     = 2"
proof -
  have d: "round64 (- 2) = Num (- 2)"
    using round64_of_int [of "- 2"] by simp
  have "fst (getVolumeWeightedStockPrice 1704103200 overflow_ledger) = Inr (Num (- 2))"
    by (simp add: getVolumeWeightedStockPrice_sums window_sums_def lower_bound_def
          overflow_ledger_trades of_long_def long_val_def dadd_def dne_def ddiv_def
          is_zero_def round64_numerals d)
  moreover have "exact_value (qualifying 1704103200 overflow_ledger)
      / total_quantity (qualifying 1704103200 overflow_ledger) = 2"
    by (simp add: overflow_ledger_trades qualifying_def in_window_def exact_value_def
          total_quantity_def long_val_def)
  ultimately show ?thesis
    by (simp only: overflow_ledger_def)
qed




text \<open>
  Claim C3, as amended. For every ledger that is not empty,
  \<^verbatim>\<open>calculateGeometricMean\<close> returns \<open>pow (P, 1 / (double) N)\<close>, where \<open>N\<close>
  counts all the entries of the ledger, \<open>P\<close> is the product the loop builds
  over all of them in \<^verbatim>\<open>double\<close>, starting from 1, in the order of the keys,
  and \<^verbatim>\<open>pow\<close> is the library's. When every price is positive and the product
  of the prices is at most \<open>2 ^ 53\<close>, \<open>P\<close> is that product; the exponent is
  the \<^verbatim>\<open>double\<close> nearest to \<open>1 / N\<close>. In the witness the ledger holds a trade
  at price 1 from an hour before the window and a trade at price 100 inside it:
  the window holds one entry, and the mean, over both, is 10.
\<close>

theorem calculateGeometricMean_all_records:
  assumes "trades self \<noteq> []"
  shows "fst (calculateGeometricMean lib self) =
           Inr (pow lib (gm_loop (trades self) (Num 1))
                  (ddiv (Num 1) (of_size (length (trades self)))))
       \<and> (exact_product (trades self) \<longrightarrow>
            gm_loop (trades self) (Num 1) = Num (price_product (trades self))
          \<and> fst (calculateGeometricMean lib self) =
              Inr (pow lib (Num (price_product (trades self)))
                     (ddiv (Num 1) (of_size (length (trades self))))))
       \<and> (length (trades self) \<le> 2 ^ 53 \<longrightarrow>
            ddiv (Num 1) (of_size (length (trades self)))
              = round64 (1 / real (length (trades self))))"
proof -
  have g: "gm_loop (trades self) (Num 1) = Num (price_product (trades self))"
    if "exact_product (trades self)"
  proof -
    have "gm_loop (trades self) (Num (of_int 1)) = Num (of_int 1 * price_product (trades self))"
      using that by (intro gm_loop_exact) (simp_all add: exact_product_def)
    then show ?thesis by simp
  qed
  have d: "ddiv (Num 1) (of_size (length (trades self))) = round64 (1 / real (length (trades self)))"
    if "length (trades self) \<le> 2 ^ 53"
    using that assms by (simp add: of_size_exact ddiv_finite)
  show ?thesis
    using assms g d by (simp add: calculateGeometricMean_pow)
qed

theorem calculateGeometricMean_all_records_witness:
  "trades old_and_new_ledger \<noteq> []
   \<and> exact_product (trades old_and_new_ledger)
   \<and> length (trades old_and_new_ledger) \<le> 2 ^ 53
   \<and> price_product (trades old_and_new_ledger) = 100
   \<and> fst (calculateGeometricMean reference_libc old_and_new_ledger) = Inr (Num 10)
   \<and> qualifying 1704103200 old_and_new_ledger =
       [(1704103200, \<lparr>timeStampStr = ''2024-01-01 10:00:00'', quantity = 3,
          buySellIndicator = CHR ''B'', price = 100\<rparr>)]"
proof -
  have n: "trades old_and_new_ledger \<noteq> []"
    by (simp add: old_and_new_ledger_trades)
  have p: "price_product (trades old_and_new_ledger) = 100"
    by (simp add: old_and_new_ledger_trades price_product_def long_val_def)
  have x: "exact_product (trades old_and_new_ledger)"
    unfolding exact_product_def p by (simp add: old_and_new_ledger_trades positive_prices_def)
  have l: "length (trades old_and_new_ledger) = 2"
    by (simp add: old_and_new_ledger_trades)
  have q: "qualifying 1704103200 old_and_new_ledger =
       [(1704103200, \<lparr>timeStampStr = ''2024-01-01 10:00:00'', quantity = 3,
          buySellIndicator = CHR ''B'', price = 100\<rparr>)]"
    by (simp add: old_and_new_ledger_trades qualifying_def in_window_def)
  from calculateGeometricMean_all_records [OF n, of reference_libc] x
  have "fst (calculateGeometricMean reference_libc old_and_new_ledger) =
      Inr (pow reference_libc (Num (price_product (trades old_and_new_ledger)))
             (ddiv (Num 1) (of_size (length (trades old_and_new_ledger)))))"
    and "length (trades old_and_new_ledger) \<le> 2 ^ 53 \<longrightarrow>
      ddiv (Num 1) (of_size (length (trades old_and_new_ledger)))
        = round64 (1 / real (length (trades old_and_new_ledger)))"
    by blast+
  then have "fst (calculateGeometricMean reference_libc old_and_new_ledger) = Inr (Num 10)"
    by (simp add: p l round64_half reference_libc_def reference_sqrt_100)
  with n x p q l show ?thesis by simp
qed

text \<open>
  Claim C3 as stated does not hold for every ledger that is not empty.
  Seventeen trades at the price \<open>2 ^ 62\<close>: the product of the prices is
  \<open>(2 ^ 62) ^ 17\<close> and its seventeenth root \<open>2 ^ 62\<close>, but the running product
  leaves the range of \<^verbatim>\<open>double\<close> at the last step, and the result is the
  infinity. Three trades at the prices \<open>- 2\<close>, \<open>- 4\<close> and \<open>- 1\<close>: the product
  is \<open>- 8\<close> and its cube root \<open>- 2\<close>, but \<^verbatim>\<open>pow\<close> of a negative number to an
  exponent that is not an integer is NaN.
\<close>

theorem calculateGeometricMean_not_root:
  "gm_loop (trades large_ledger) (Num 1) = PInf
   \<and> fst (calculateGeometricMean reference_libc large_ledger) = Inr PInf
   \<and> length (trades large_ledger) = 17
   \<and> positive_prices (trades large_ledger)
   \<and> price_product (trades large_ledger) = (2 ^ 62) ^ 17
   \<and> root 17 ((2 ^ 62) ^ 17) = 2 ^ 62
   \<and> fst (calculateGeometricMean reference_libc negative_ledger) = Inr NaN
   \<and> length (trades negative_ledger) = 3
   \<and> price_product (trades negative_ledger) = - 8
   \<and> root 3 (- 8) = - 2"
  using large_ledger_loop large_ledger_mean large_ledger_product negative_ledger_mean
  by blast

text \<open>
  Claim C7 as stated does not hold: the source never looks at what
  \<^verbatim>\<open>strptime\<close> returns and has no exception for a malformed time stamp. In the
  call with the time stamp \<^verbatim>\<open>yesterday\<close> the body runs to its end and stores the
  record, under the key that \<^verbatim>\<open>mktime\<close> computes from the untouched, zeroed
  \<^verbatim>\<open>struct tm\<close>.
\<close>

theorem recordTrade_accepts_malformed:
  "\<not> timestamp_pattern ''yesterday''
   \<and> recordTrade reference_libc ''yesterday'' 10 CHR ''B'' 5 StoreTrades_new =
       (No_return_statement,
        \<lparr>trades = [(- 2209075200, \<lparr>timeStampStr = ''yesterday'', quantity = 10,
           buySellIndicator = CHR ''B'', price = 5\<rparr>)]\<rparr>)"
proof -
  have "\<not> timestamp_pattern ''yesterday''"
    by (simp add: timestamp_pattern_def)
  moreover have "recordTrade reference_libc ''yesterday'' 10 CHR ''B'' 5 StoreTrades_new =
       (No_return_statement,
        \<lparr>trades = [(- 2209075200, \<lparr>timeStampStr = ''yesterday'', quantity = 10,
           buySellIndicator = CHR ''B'', price = 5\<rparr>)]\<rparr>)"
    by (simp add: recordTrade_parts reference_keys recorded_trade_def StoreTrades_new_def)
  ultimately show ?thesis by simp
qed

text \<open>
  Claim C7, as amended. For every time stamp string, whether it matches the
  pattern or not, and for every C library, the body of \<^verbatim>\<open>recordTrade\<close> has no
  path that raises an error: it inserts exactly one entry, the record of its
  arguments under the key \<^verbatim>\<open>mktime\<close> gives for what \<^verbatim>\<open>strptime\<close> left in the
  zeroed \<^verbatim>\<open>struct tm\<close>, and then reaches the end of the function, which has no
  \<^verbatim>\<open>return\<close> statement: the call reports no status, and how it ends is
  undefined.
\<close>

theorem recordTrade_no_error_path:
  "recordTrade lib ts q b p self =
     (No_return_statement,
      self\<lparr>trades := multimap_insert (recorded_key lib ts, recorded_trade ts q b p)
                        (trades self)\<rparr>)
   \<and> mset (trades (snd (recordTrade lib ts q b p self))) =
       add_mset (recorded_key lib ts, recorded_trade ts q b p) (mset (trades self))
   \<and> length (trades (snd (recordTrade lib ts q b p self))) = Suc (length (trades self))"
  by (simp add: recordTrade_parts mset_multimap_insert length_multimap_insert)

text \<open>
  Claim C8. In every state of the ledger whose keys ascend, once the body of
  \<^verbatim>\<open>recordTrade\<close> has run with a time stamp whose key is not older than
  15 minutes (the current time included), the new entry is among the entries
  the loop of \<^verbatim>\<open>getVolumeWeightedStockPrice\<close> visits, which are those of before
  with the new one inserted, and the result of the query is the \<^verbatim>\<open>double\<close>
  quotient of the sums over them. When no key of the ledger is later than the
  new one, the two sums are those of before plus, in \<^verbatim>\<open>double\<close>, the quantity
  and the \<^verbatim>\<open>long\<close> product quantity times price. When the sums are exact, they
  are the sums of before plus \<open>q\<close> and plus \<open>q * p\<close>, and the result is the
  \<^verbatim>\<open>double\<close> nearest to their quotient. \<^verbatim>\<open>calculateGeometricMean\<close> runs over
  the entries of before with the new one inserted, one entry more, and where
  the product is exact it is the product of before times \<open>p\<close>. This is a
  statement about the object as the body leaves it: the call itself ends
  without a \<^verbatim>\<open>return\<close> statement.
\<close>

theorem recordTrade_visible:
  assumes "ordered self" and "now - 15 * 60 \<le> recorded_key lib ts"
  shows "(recorded_key lib ts, recorded_trade ts q b p)
            \<in> set (lower_bound (now - 15 * 60) (trades (snd (recordTrade lib ts q b p self))))
       \<and> lower_bound (now - 15 * 60) (trades (snd (recordTrade lib ts q b p self))) =
           multimap_insert (recorded_key lib ts, recorded_trade ts q b p)
             (lower_bound (now - 15 * 60) (trades self))
       \<and> window_sums now (snd (recordTrade lib ts q b p self)) =
           vwsp_loop (multimap_insert (recorded_key lib ts, recorded_trade ts q b p)
                        (qualifying now self)) (Num 0, Num 0)
       \<and> fst (getVolumeWeightedStockPrice now (snd (recordTrade lib ts q b p self))) =
           (if dne (fst (window_sums now (snd (recordTrade lib ts q b p self)))) (Num 0)
            then Inr (ddiv (snd (window_sums now (snd (recordTrade lib ts q b p self))))
                           (fst (window_sums now (snd (recordTrade lib ts q b p self)))))
            else Inl NoTradesFound)
       \<and> ((\<forall>x\<in>set (trades self). fst x \<le> recorded_key lib ts) \<longrightarrow>
            window_sums now (snd (recordTrade lib ts q b p self)) =
              (dadd (fst (window_sums now self)) (of_long q),
               dadd (snd (window_sums now self)) (of_long (q * p))))
       \<and> (exact_sums (qualifying now (snd (recordTrade lib ts q b p self))) \<longrightarrow>
            window_sums now (snd (recordTrade lib ts q b p self)) =
              (Num (total_quantity (qualifying now self) + long_val q),
               Num (exact_value (qualifying now self) + long_val q * long_val p))
          \<and> (total_quantity (qualifying now self) + long_val q \<noteq> 0
               \<and> exact_value (qualifying now self) + long_val q * long_val p \<noteq> 0 \<longrightarrow>
             fst (getVolumeWeightedStockPrice now (snd (recordTrade lib ts q b p self))) =
               Inr (round64 ((exact_value (qualifying now self) + long_val q * long_val p)
                      / (total_quantity (qualifying now self) + long_val q)))))
       \<and> fst (calculateGeometricMean lib (snd (recordTrade lib ts q b p self))) =
           Inr (pow lib
                  (gm_loop (multimap_insert (recorded_key lib ts, recorded_trade ts q b p)
                              (trades self)) (Num 1))
                  (ddiv (Num 1) (of_size (Suc (length (trades self))))))
       \<and> (exact_product (trades (snd (recordTrade lib ts q b p self))) \<longrightarrow>
            fst (calculateGeometricMean lib (snd (recordTrade lib ts q b p self))) =
              Inr (pow lib (Num (price_product (trades self) * long_val p))
                     (ddiv (Num 1) (of_size (Suc (length (trades self)))))))"
proof -
  let ?e = "(recorded_key lib ts, recorded_trade ts q b p)"
  let ?self' = "snd (recordTrade lib ts q b p self)"
  have t: "trades ?self' = multimap_insert ?e (trades self)"
    by (rule trades_recordTrade)
  have o: "ordered ?self'"
    using assms(1) by (rule ordered_recordTrade)
  have w: "qualifying now ?self' = multimap_insert ?e (qualifying now self)"
    using assms by (rule qualifying_recordTrade)
  have l: "lower_bound (now - 15 * 60) (trades ?self') =
      multimap_insert ?e (lower_bound (now - 15 * 60) (trades self))"
    using w by (simp only: lower_bound_qualifying [OF o] lower_bound_qualifying [OF assms(1)])
  have member: "?e \<in> set (lower_bound (now - 15 * 60) (trades ?self'))"
    by (simp only: l set_multimap_insert) simp
  have sums: "window_sums now ?self' = vwsp_loop (multimap_insert ?e (qualifying now self)) (Num 0, Num 0)"
    by (simp only: window_sums_qualifying [OF o] w)
  have result: "fst (getVolumeWeightedStockPrice now ?self') =
      (if dne (fst (window_sums now ?self')) (Num 0)
       then Inr (ddiv (snd (window_sums now ?self')) (fst (window_sums now ?self')))
       else Inl NoTradesFound)"
    by (rule getVolumeWeightedStockPrice_sums)
  have last: "window_sums now ?self' =
      (dadd (fst (window_sums now self)) (of_long q),
       dadd (snd (window_sums now self)) (of_long (q * p)))"
    if "\<forall>x\<in>set (trades self). fst x \<le> recorded_key lib ts"
  proof -
    from that qualifying_subset [of now self]
    have "\<forall>x\<in>set (qualifying now self). fst x \<le> fst ?e" by auto
    then have "multimap_insert ?e (qualifying now self) = qualifying now self @ [?e]"
      by (rule multimap_insert_last)
    then show ?thesis
      by (simp add: sums vwsp_loop_append window_sums_qualifying [OF assms(1)] recorded_trade_def)
  qed
  have tq: "total_quantity (qualifying now ?self') = total_quantity (qualifying now self) + long_val q"
    by (simp add: w total_quantity_insert recorded_trade_def)
  have ev: "exact_value (qualifying now ?self') =
      exact_value (qualifying now self) + long_val q * long_val p"
    by (simp add: w exact_value_insert recorded_trade_def)
  have exact_a: "window_sums now ?self' =
      (Num (total_quantity (qualifying now self) + long_val q),
       Num (exact_value (qualifying now self) + long_val q * long_val p))"
    if "exact_sums (qualifying now ?self')"
    using window_sums_exact [OF o that] by (simp only: tq ev)
  have exact_b: "fst (getVolumeWeightedStockPrice now ?self') =
      Inr (round64 ((exact_value (qualifying now self) + long_val q * long_val p)
             / (total_quantity (qualifying now self) + long_val q)))"
    if "exact_sums (qualifying now ?self')"
      and "total_quantity (qualifying now self) + long_val q \<noteq> 0"
      and "exact_value (qualifying now self) + long_val q * long_val p \<noteq> 0"
    using that(2,3) by (simp add: result exact_a [OF that(1)] dne_def ddiv_finite)
  have n: "trades ?self' \<noteq> []"
    using length_multimap_insert [of ?e "trades self"] by (simp only: t) auto
  have mean: "fst (calculateGeometricMean lib ?self') =
      Inr (pow lib (gm_loop (multimap_insert ?e (trades self)) (Num 1))
             (ddiv (Num 1) (of_size (Suc (length (trades self))))))"
    using n by (simp add: calculateGeometricMean_pow t length_multimap_insert)
  have exact_mean: "fst (calculateGeometricMean lib ?self') =
      Inr (pow lib (Num (price_product (trades self) * long_val p))
             (ddiv (Num 1) (of_size (Suc (length (trades self))))))"
    if "exact_product (trades ?self')"
  proof -
    have "gm_loop (trades ?self') (Num (of_int 1)) = Num (of_int 1 * price_product (trades ?self'))"
      using that by (intro gm_loop_exact) (simp_all add: exact_product_def)
    then have "gm_loop (multimap_insert ?e (trades self)) (Num 1) =
        Num (price_product (trades self) * long_val p)"
      by (simp add: t price_product_insert recorded_trade_def)
    then show ?thesis by (simp only: mean)
  qed
  show ?thesis
    using member l sums result last exact_a exact_b mean exact_mean by blast
qed

theorem recordTrade_visible_witness:
  "ordered first_trade_ledger
   \<and> 1704103205 - 15 * 60 \<le> recorded_key reference_libc ''2024-01-01 10:00:05''
   \<and> map fst (trades first_trade_ledger) = [1704103200]
   \<and> recorded_key reference_libc ''2024-01-01 10:00:05'' = 1704103205
   \<and> exact_sums (qualifying 1704103205
        (snd (recordTrade reference_libc ''2024-01-01 10:00:05'' 1 CHR ''S'' 16
           first_trade_ledger)))
   \<and> exact_product (trades
        (snd (recordTrade reference_libc ''2024-01-01 10:00:05'' 1 CHR ''S'' 16
           first_trade_ledger)))
   \<and> fst (getVolumeWeightedStockPrice 1704103205 first_trade_ledger) = Inr (Num 4)
   \<and> fst (getVolumeWeightedStockPrice 1704103205
        (snd (recordTrade reference_libc ''2024-01-01 10:00:05'' 1 CHR ''S'' 16
           first_trade_ledger))) = Inr (Num 10)
   \<and> fst (calculateGeometricMean reference_libc
        (snd (recordTrade reference_libc ''2024-01-01 10:00:05'' 1 CHR ''S'' 16
           first_trade_ledger))) = Inr (Num 8)"
proof -
  let ?self' = "snd (recordTrade reference_libc ''2024-01-01 10:00:05'' 1 CHR ''S'' 16
           first_trade_ledger)"
  have o: "ordered first_trade_ledger"
    by (simp add: first_trade_ledger_trades ordered_def)
  have k: "1704103205 - 15 * 60 \<le> recorded_key reference_libc ''2024-01-01 10:00:05''"
    by (simp add: reference_keys)
  have a: "map fst (trades first_trade_ledger) = [1704103200]"
    "recorded_key reference_libc ''2024-01-01 10:00:05'' = 1704103205"
    by (simp_all add: first_trade_ledger_trades reference_keys)
  have t: "trades ?self' =
     [(1704103200, \<lparr>timeStampStr = ''2024-01-01 10:00:00'', quantity = 1,
        buySellIndicator = CHR ''B'', price = 4\<rparr>),
      (1704103205, \<lparr>timeStampStr = ''2024-01-01 10:00:05'', quantity = 1,
        buySellIndicator = CHR ''S'', price = 16\<rparr>)]"
    by (simp add: trades_recordTrade first_trade_ledger_trades reference_keys recorded_trade_def)
  have q0: "qualifying 1704103205 first_trade_ledger = trades first_trade_ledger"
    by (simp add: qualifying_def in_window_def first_trade_ledger_trades)
  have q: "qualifying 1704103205 ?self' = trades ?self'"
    unfolding qualifying_def t by (simp add: in_window_def)
  have x: "exact_sums (qualifying 1704103205 ?self')"
    unfolding q t by (simp add: exact_sums_def quantity_magnitude_def value_magnitude_def)
  have y: "exact_product (trades ?self')"
    unfolding t by (simp add: exact_product_def positive_prices_def price_product_def long_val_def)
  have s: "total_quantity (qualifying 1704103205 first_trade_ledger) = 1"
    "exact_value (qualifying 1704103205 first_trade_ledger) = 4"
    "price_product (trades first_trade_ledger) = 4"
    unfolding q0
    by (simp_all add: first_trade_ledger_trades total_quantity_def exact_value_def
          price_product_def long_val_def)
  have l: "length (trades first_trade_ledger) = 1"
    by (simp add: first_trade_ledger_trades)
  have r: "round64 4 = Num 4" "round64 10 = Num 10" "round64 2 = Num 2" "round64 1 = Num 1"
    using round64_of_int [of 4] round64_of_int [of 10] round64_of_int [of 2]
      round64_of_int [of 1] by simp_all
  have b: "fst (getVolumeWeightedStockPrice 1704103205 first_trade_ledger) = Inr (Num 4)"
    by (simp add: getVolumeWeightedStockPrice_sums window_sums_def lower_bound_def
          first_trade_ledger_trades of_long_def long_val_def dadd_def dne_def ddiv_def
          is_zero_def r)
  note recordTrade_visible [OF o k, where q = 1 and b = "CHR ''S''" and p = 16]
  then have "exact_sums (qualifying 1704103205 ?self') \<longrightarrow>
      (total_quantity (qualifying 1704103205 first_trade_ledger) + long_val 1 \<noteq> 0
         \<and> exact_value (qualifying 1704103205 first_trade_ledger) + long_val 1 * long_val 16 \<noteq> 0 \<longrightarrow>
       fst (getVolumeWeightedStockPrice 1704103205 ?self') =
         Inr (round64 ((exact_value (qualifying 1704103205 first_trade_ledger)
                          + long_val 1 * long_val 16)
                / (total_quantity (qualifying 1704103205 first_trade_ledger) + long_val 1))))"
    and "exact_product (trades ?self') \<longrightarrow>
      fst (calculateGeometricMean reference_libc ?self') =
        Inr (pow reference_libc (Num (price_product (trades first_trade_ledger) * long_val 16))
               (ddiv (Num 1) (of_size (Suc (length (trades first_trade_ledger))))))"
    by blast+
  with x y have v: "fst (getVolumeWeightedStockPrice 1704103205 ?self') = Inr (Num 10)"
    and g: "fst (calculateGeometricMean reference_libc ?self') =
      Inr (pow reference_libc (Num 64) (ddiv (Num 1) (of_size (Suc (Suc 0)))))"
    by (simp_all add: s l long_val_def r)
  have "pow reference_libc = reference_pow"
    by (simp add: reference_libc_def)
  moreover have "ddiv (Num 1) (of_size (Suc (Suc 0))) = Num (1 / 2)"
    by (simp add: of_size_def r ddiv_finite round64_half)
  ultimately have "fst (calculateGeometricMean reference_libc ?self') = Inr (Num 8)"
    by (simp only: g reference_sqrt_64)
  with o k a x y b v show ?thesis by simp
qed

text \<open>
  Claim C9. Both queries leave the object as it was, whether they return a
  value or throw: the state after the call is the state before it, and so is
  the multiset of its entries.
\<close>

theorem queries_pure:
  "snd (getVolumeWeightedStockPrice now self) = self
   \<and> snd (calculateGeometricMean lib self) = self
   \<and> mset (trades (snd (getVolumeWeightedStockPrice now self))) = mset (trades self)
   \<and> mset (trades (snd (calculateGeometricMean lib self))) = mset (trades self)"
  by (simp add: getVolumeWeightedStockPrice_def calculateGeometricMean_def Let_def
        split: prod.split)

text \<open>
  Claim C10. Two ledgers whose entries agree, one by one, on key, quantity and
  price give the same result, or the same exception, in both queries: the buy
  or sell indicator (and the text of the time stamp) is never read.
\<close>

theorem side_indicator_unread:
  assumes "map read_fields (trades s1) = map read_fields (trades s2)"
  shows "fst (getVolumeWeightedStockPrice now s1) = fst (getVolumeWeightedStockPrice now s2)
       \<and> fst (calculateGeometricMean lib s1) = fst (calculateGeometricMean lib s2)"
proof -
  have "window_sums now s1 = window_sums now s2"
    unfolding window_sums_def Let_def
    by (rule vwsp_loop_read_fields) (rule lower_bound_read_fields [OF assms])
  moreover have "gm_loop (trades s1) (Num 1) = gm_loop (trades s2) (Num 1)"
    by (rule gm_loop_read_fields [OF assms])
  moreover have "length (trades s1) = length (trades s2)"
    using assms by (rule map_eq_imp_length_eq)
  ultimately show ?thesis
    by (simp add: getVolumeWeightedStockPrice_def calculateGeometricMean_def Let_def
          split: prod.split)
qed

theorem side_indicator_unread_witness:
  "map read_fields (trades example_ledger) = map read_fields (trades (flipped example_ledger))
   \<and> trades example_ledger \<noteq> trades (flipped example_ledger)
   \<and> fst (getVolumeWeightedStockPrice 1704103205 (flipped example_ledger)) =
       Inr (Num (8913374262504107 / 2 ^ 47))
   \<and> fst (getVolumeWeightedStockPrice 1704103205 example_ledger) =
       Inr (Num (8913374262504107 / 2 ^ 47))"
proof -
  have r: "map read_fields (trades example_ledger) = map read_fields (trades (flipped example_ledger))"
    by (simp add: flipped_def read_fields_def)
  have d: "trades example_ledger \<noteq> trades (flipped example_ledger)"
    by (simp add: flipped_def example_ledger_trades)
  show ?thesis
    using r d example_result side_indicator_unread [OF r, of 1704103205 reference_libc] by simp
qed

end
